theory Spec2Isabelle
  imports Main
begin

section \<open>Data model\<close>

text \<open>
  The entries handed over by the directory scan. The declarations of
  \<^verbatim>\<open>collections.MovieDirInfo\<close> and \<^verbatim>\<open>collections.SubDirInfo\<close> live in another package;
  the fields are the ones \<^verbatim>\<open>saveMovies\<close> and \<^verbatim>\<open>saveSubs\<close> read (main.go, lines 231-251 and
  260-278).
\<close>

record DirInfo =
  Dir :: string

record MovieDirInfo = DirInfo +
  MovieFile :: string
  MovieSize :: int
  MimeType :: string

record SubDirInfo = DirInfo +
  SubFile :: string

text \<open>
  Modelled from the spec: the declarations of \<^verbatim>\<open>models.Movie\<close> and \<^verbatim>\<open>models.Subtitle\<close>
  (package repository/models) are not among the sources. The fields are those of the
  CatalogRecord of the data model: a surrogate key assigned by the store, the provenance
  and title fields shared by both variants, and the Movie-only fields. The names are the
  ones main.go writes in its composite literals (lines 244-254 and 273-279); the field
  \<^verbatim>\<open>MimeType\<close> of the movie record is written \<open>MovieMimeType\<close>, the shorter name being that
  of the field of the scanned entry.
\<close>

record CatalogRecord =
  ID :: nat
  DirPath :: string
  DirName :: string
  CleanDirName :: string
  BaseName :: string
  CleanBaseName :: string

record Movie = CatalogRecord +
  FileSize :: int
  MovieMimeType :: string
  IsGroupDir :: bool
  IsPrepared :: bool

type_synonym Subtitle = CatalogRecord

text \<open>The catalog store: the two tables the pipeline writes, rows in insertion order.\<close>

record DB =
  movies :: "Movie list"
  subtitles :: "Subtitle list"

definition emptyDB :: DB where
  "emptyDB = \<lparr>movies = [], subtitles = []\<rparr>"

section \<open>Paths (path/filepath on a slash-separated platform)\<close>

definition appDirName :: string where
  "appDirName = ''voodioapp''"

definition dbFileName :: string where
  "dbFileName = ''voodio.db''"

definition Separator :: char where
  "Separator = CHR ''/''"

text \<open>\<^verbatim>\<open>strings.Split(path, "/")\<close>: the elements between separators, empty ones included.\<close>

fun splitPath :: "string \<Rightarrow> string list" where
  "splitPath [] = [[]]"
| "splitPath (c # cs) =
     (if c = Separator then [] # splitPath cs
      else (case splitPath cs of [] \<Rightarrow> [[c]] | e # es \<Rightarrow> (c # e) # es))"

text \<open>\<^verbatim>\<open>strings.Join(elems, "/")\<close>.\<close>

fun joinPath :: "string list \<Rightarrow> string" where
  "joinPath [] = []"
| "joinPath [e] = e"
| "joinPath (e # es) = e @ Separator # joinPath es"

text \<open>
  The element loop of \<^verbatim>\<open>filepath.Clean\<close>: empty elements and \<^verbatim>\<open>.\<close> are dropped, \<^verbatim>\<open>..\<close>
  removes the element written last unless that is itself a leading \<^verbatim>\<open>..\<close>; at the start
  of a rooted path \<^verbatim>\<open>..\<close> is dropped, at the start of a relative one it is kept. The
  second argument is the output written so far, last element first.
\<close>

fun cleanElems :: "bool \<Rightarrow> string list \<Rightarrow> string list \<Rightarrow> string list" where
  "cleanElems rooted out [] = rev out"
| "cleanElems rooted out (e # es) =
     (if e = [] \<or> e = ''.'' then cleanElems rooted out es
      else if e = ''..'' then
        (case out of
           [] \<Rightarrow> if rooted then cleanElems rooted out es else cleanElems rooted (e # out) es
         | x # xs \<Rightarrow> if x = ''..'' then cleanElems rooted (e # out) es
                     else cleanElems rooted xs es)
      else cleanElems rooted (e # out) es)"

definition Clean :: "string \<Rightarrow> string" where
  "Clean path =
     (if path = [] then ''.''
      else let rooted = (hd path = Separator);
               body = joinPath (cleanElems rooted [] (splitPath path))
           in if rooted then Separator # body
              else if body = [] then ''.'' else body)"

text \<open>
  \<^verbatim>\<open>filepath.Join\<close>: leading empty elements are skipped, the rest is joined with the
  separator and cleaned; with no non-empty element the result is the empty string.
\<close>

definition Join :: "string list \<Rightarrow> string" where
  "Join elem =
     (case dropWhile (\<lambda>e. e = []) elem of
        [] \<Rightarrow> []
      | es \<Rightarrow> Clean (joinPath es))"

text \<open>
  \<^verbatim>\<open>filepath.Base\<close>: the last element of the path, after trailing separators are removed;
  \<^verbatim>\<open>.\<close> for the empty path and the separator for a path of separators only.
\<close>

definition Base :: "string \<Rightarrow> string" where
  "Base path =
     (if path = [] then ''.''
      else let stripped = rev (dropWhile (\<lambda>c. c = Separator) (rev path));
               lastElem = rev (takeWhile (\<lambda>c. c \<noteq> Separator) (rev stripped))
           in if lastElem = [] then [Separator] else lastElem)"

section \<open>The working directory and the storage file\<close>

text \<open>
  What the process reads from its surroundings. \<^verbatim>\<open>UserCacheDir\<close> is the pair returned by
  \<^verbatim>\<open>os.UserCacheDir()\<close>: the directory and the error (\<open>None\<close> for \<^verbatim>\<open>nil\<close>). The three
  \<open>_fails\<close> fields say whether the file-system call of that name in \<^verbatim>\<open>init\<close> returns an
  error; \<^verbatim>\<open>ffmpegInstalled\<close> is whether \<^verbatim>\<open>exec.LookPath("ffmpeg")\<close> succeeds.
\<close>

datatype node = Directory | File DB

type_synonym fs = "string \<Rightarrow> node option"

record OSEnv =
  UserCacheDir :: "string \<times> string option"
  MkdirAll_fails :: bool
  Remove_fails :: bool
  Create_fails :: bool
  ffmpegInstalled :: bool

text \<open>
  Line 33, \<^verbatim>\<open>var cacheDir, _ = os.UserCacheDir()\<close>: the first component is kept, the error
  is assigned to the blank identifier.
\<close>

definition cacheDir :: "'a OSEnv_scheme \<Rightarrow> string" where
  "cacheDir env = fst (UserCacheDir env)"

definition getAppDir :: "'a OSEnv_scheme \<Rightarrow> string" where
  "getAppDir env = Join [cacheDir env, appDirName]"

definition getDBPath :: "'a OSEnv_scheme \<Rightarrow> string" where
  "getDBPath env = Join [getAppDir env, dbFileName]"

text \<open>How the process ends when it does not reach its normal end.\<close>

datatype abort = Panic string | NilDereference | Exit int

text \<open>
  \<^verbatim>\<open>os.MkdirAll\<close>: the directory and every missing parent are created. The parents of a
  path are its proper prefixes that end before a separator.
\<close>

definition parents :: "string \<Rightarrow> string list" where
  "parents path = [take i path. i \<leftarrow> [1..<length path], path ! i = Separator]"

definition MkdirAll :: "string \<Rightarrow> fs \<Rightarrow> fs" where
  "MkdirAll path files =
     (\<lambda>q. if q \<in> set (parents path @ [path]) \<and> files q = None then Some Directory
          else files q)"

text \<open>\<^verbatim>\<open>os.RemoveAll\<close>: the path and everything below it.\<close>

definition RemoveAll :: "string \<Rightarrow> fs \<Rightarrow> fs" where
  "RemoveAll path files =
     (\<lambda>q. if q = path \<or> take (Suc (length path)) q = path @ [Separator] then None
          else files q)"

text \<open>
  \<^verbatim>\<open>init\<close> (lines 43-74). \<^verbatim>\<open>os.Stat\<close> reports a missing file exactly when the path has no
  node. The result is the abort (a panic, or \<^verbatim>\<open>os.Exit(1)\<close>) with the file system at that
  moment, or the file system the function leaves.
\<close>

definition init :: "'a OSEnv_scheme \<Rightarrow> fs \<Rightarrow> (abort \<times> fs) + fs" where
  "init env files =
     (let appDirPath = getAppDir env;
          created =
            (if files appDirPath = None then
               (if MkdirAll_fails env
                then Inl (Panic (''Unable to create App Dir on '' @ appDirPath), files)
                else Inr (MkdirAll appDirPath files))
             else Inr files)
      in case created of
           Inl a \<Rightarrow> Inl a
         | Inr files1 \<Rightarrow>
             (let dbPath = getDBPath env;
                  removed =
                    (if files1 dbPath \<noteq> None then
                       (if Remove_fails env then Inl (Panic ''Unable removing obsolete DB'', files1)
                        else Inr (files1(dbPath := None)))
                     else Inr files1)
              in case removed of
                   Inl a \<Rightarrow> Inl a
                 | Inr files2 \<Rightarrow>
                     if Create_fails env then Inl (Exit 1, files2)
                     else Inr (files2(dbPath \<mapsto> File emptyDB))))"

text \<open>\<^verbatim>\<open>cleanup\<close> (lines 76-79).\<close>

definition cleanup :: "'a OSEnv_scheme \<Rightarrow> fs \<Rightarrow> fs" where
  "cleanup env files = RemoveAll (getAppDir env) files"

section \<open>Command line\<close>

text \<open>
  The values \<^verbatim>\<open>flag.Parse\<close> leaves behind (lines 93-100): the three scalar flags, and
  for the repeatable \<^verbatim>\<open>-resolution\<close> flag the tokens in the order given, each handed to
  \<^verbatim>\<open>Set\<close>.
\<close>

record Args =
  parentMoviePath :: string
  serverPort :: int
  tmdbAPIKey :: string
  resolutionTokens :: "string list"

type_synonym resolutionParam = "string list"

text \<open>\<^verbatim>\<open>(*resolutionParam).Set\<close> (lines 87-90): appends, never fails.\<close>

definition resolutionParam_Set :: "resolutionParam \<Rightarrow> string \<Rightarrow> resolutionParam" where
  "resolutionParam_Set r param = r @ [param]"

text \<open>Lines 97-109: the parsed tokens, or the four defaults when there is none.\<close>

definition screenRes :: "'a Args_scheme \<Rightarrow> resolutionParam" where
  "screenRes args =
     (let parsed = foldl resolutionParam_Set [] (resolutionTokens args)
      in if length parsed = 0 then [''360p'', ''480p'', ''720p'', ''1080p''] else parsed)"

section \<open>Writing the catalog\<close>

text \<open>
  The title parser is a library outside the repository and is a parameter here. It
  returns a pointer to the parsed information (\<open>None\<close> for \<^verbatim>\<open>nil\<close>) and an error
  (\<open>None\<close> for \<^verbatim>\<open>nil\<close>); only the title of the information is read.
\<close>

record TorrentInfo =
  Title :: string

type_synonym parser = "string \<Rightarrow> TorrentInfo option \<times> string option"

text \<open>Reading \<^verbatim>\<open>info.Title\<close> through the pointer: a \<^verbatim>\<open>nil\<close> pointer panics.\<close>

definition titleOf :: "TorrentInfo option \<Rightarrow> abort + string" where
  "titleOf info = (case info of None \<Rightarrow> Inl NilDereference | Some i \<Rightarrow> Inr (Title i))"

text \<open>
  \<^verbatim>\<open>dbConn.Create\<close>: the row is appended and the store assigns the key, one more than the
  largest key in the table. The error of the call is not looked at by the callers, and
  the store is taken to accept every row.
\<close>

definition nextID :: "'a CatalogRecord_scheme list \<Rightarrow> nat" where
  "nextID rows = Suc (fold max (map ID rows) 0)"

definition Create_Movie :: "DB \<Rightarrow> Movie \<Rightarrow> DB" where
  "Create_Movie db m = db\<lparr>movies := movies db @ [m\<lparr>ID := nextID (movies db)\<rparr>]\<rparr>"

definition Create_Subtitle :: "DB \<Rightarrow> Subtitle \<Rightarrow> DB" where
  "Create_Subtitle db s = db\<lparr>subtitles := subtitles db @ [s\<lparr>ID := nextID (subtitles db)\<rparr>]\<rparr>"

text \<open>
  The body of the loop of \<^verbatim>\<open>saveMovies\<close> (lines 231-254). The error of the first call
  of the parser is bound to \<^verbatim>\<open>err\<close>; the error of the second call is assigned to the
  blank identifier, and the test on line 240 reads \<^verbatim>\<open>err\<close> again.
\<close>

definition saveMovie :: "parser \<Rightarrow> DB \<Rightarrow> MovieDirInfo \<Rightarrow> abort + DB" where
  "saveMovie Parse db movie =
     (let dirName = Base (Dir movie);
          (dirNameParsedInfo, err) = Parse (Base (Dir movie))
      in case (if err = None then titleOf dirNameParsedInfo else Inr []) of
           Inl a \<Rightarrow> Inl a
         | Inr cleanDirName \<Rightarrow>
             (let (baseNameParsedInfo, _) = Parse (MovieFile movie)
              in case (if err = None then titleOf baseNameParsedInfo else Inr []) of
                   Inl a \<Rightarrow> Inl a
                 | Inr cleanBaseName \<Rightarrow>
                     Inr (Create_Movie db
                       \<lparr>ID = 0, DirPath = Dir movie, DirName = dirName,
                        CleanDirName = cleanDirName, BaseName = MovieFile movie,
                        CleanBaseName = cleanBaseName, FileSize = MovieSize movie,
                        MovieMimeType = MimeType movie, IsGroupDir = False,
                        IsPrepared = False\<rparr>)))"

fun saveMovies :: "parser \<Rightarrow> DB \<Rightarrow> MovieDirInfo list \<Rightarrow> abort + DB" where
  "saveMovies Parse db [] = Inr db"
| "saveMovies Parse db (movie # rest) =
     (case saveMovie Parse db movie of
        Inl a \<Rightarrow> Inl a
      | Inr db' \<Rightarrow> saveMovies Parse db' rest)"

text \<open>The body of the loop of \<^verbatim>\<open>saveSubs\<close> (lines 260-279), written the same way.\<close>

definition saveSub :: "parser \<Rightarrow> DB \<Rightarrow> SubDirInfo \<Rightarrow> abort + DB" where
  "saveSub Parse db sub =
     (let dirName = Base (Dir sub);
          (dirNameParsedInfo, err) = Parse (Base (Dir sub))
      in case (if err = None then titleOf dirNameParsedInfo else Inr []) of
           Inl a \<Rightarrow> Inl a
         | Inr cleanDirName \<Rightarrow>
             (let (baseNameParsedInfo, _) = Parse (SubFile sub)
              in case (if err = None then titleOf baseNameParsedInfo else Inr []) of
                   Inl a \<Rightarrow> Inl a
                 | Inr cleanBaseName \<Rightarrow>
                     Inr (Create_Subtitle db
                       \<lparr>ID = 0, DirPath = Dir sub, DirName = dirName,
                        CleanDirName = cleanDirName, BaseName = SubFile sub,
                        CleanBaseName = cleanBaseName\<rparr>)))"

fun saveSubs :: "parser \<Rightarrow> DB \<Rightarrow> SubDirInfo list \<Rightarrow> abort + DB" where
  "saveSubs Parse db [] = Inr db"
| "saveSubs Parse db (sub # rest) =
     (case saveSub Parse db sub of
        Inl a \<Rightarrow> Inl a
      | Inr db' \<Rightarrow> saveSubs Parse db' rest)"

section \<open>Detecting group directories\<close>

text \<open>
  Lines 151-156: the grouped query on the table of movies. One row per distinct pair of
  \<^verbatim>\<open>dir_name\<close> and \<^verbatim>\<open>dir_path\<close> with more than one movie, read into a \<^verbatim>\<open>models.Movie\<close>
  whose other fields stay at their zero values. SQL leaves the order of the groups open;
  here it is the order of the last row of each group.
\<close>

definition zeroMovie :: Movie where
  "zeroMovie =
     \<lparr>ID = 0, DirPath = [], DirName = [], CleanDirName = [], BaseName = [],
      CleanBaseName = [], FileSize = 0, MovieMimeType = [], IsGroupDir = False,
      IsPrepared = False\<rparr>"

definition groupKey :: "Movie \<Rightarrow> string \<times> string" where
  "groupKey r = (DirName r, DirPath r)"

definition groupCount :: "Movie list \<Rightarrow> string \<times> string \<Rightarrow> nat" where
  "groupCount rows k = length (filter (\<lambda>r. groupKey r = k) rows)"

definition findMovieGroups :: "DB \<Rightarrow> Movie list" where
  "findMovieGroups db =
     map (\<lambda>k. zeroMovie\<lparr>DirName := fst k, DirPath := snd k\<rparr>)
       (filter (\<lambda>k. groupCount (movies db) k > 1) (remdups (map groupKey (movies db))))"

text \<open>
  Lines 161-164: \<^verbatim>\<open>Where\<close> with a struct. The query library builds the condition from
  the fields of the struct that are not at their zero value, so an empty \<^verbatim>\<open>DirName\<close> or
  \<^verbatim>\<open>DirPath\<close> puts no condition on that column.
\<close>

definition whereMatches :: "Movie \<Rightarrow> Movie \<Rightarrow> bool" where
  "whereMatches cond r \<longleftrightarrow>
     (DirName cond = [] \<or> DirName r = DirName cond) \<and>
     (DirPath cond = [] \<or> DirPath r = DirPath cond)"

definition findWhere :: "DB \<Rightarrow> Movie \<Rightarrow> Movie list" where
  "findWhere db cond = filter (whereMatches cond) (movies db)"

text \<open>
  Lines 167-169: \<^verbatim>\<open>Model(&m).Update\<close> with a struct whose only non-zero field is
  \<^verbatim>\<open>IsGroupDir\<close>. The row is addressed by the key of \<^verbatim>\<open>m\<close>; a zero key puts no
  condition on the update, which then reaches every row.
\<close>

definition updateIsGroupDir :: "Movie \<Rightarrow> DB \<Rightarrow> DB" where
  "updateIsGroupDir m db =
     db\<lparr>movies :=
          map (\<lambda>r. if ID m = 0 \<or> ID r = ID m then r\<lparr>IsGroupDir := True\<rparr> else r) (movies db)\<rparr>"

text \<open>Lines 158-171: for each group, the rows found for it are flagged one by one.\<close>

definition flagGroup :: "Movie \<Rightarrow> DB \<Rightarrow> DB" where
  "flagGroup mg db = fold updateIsGroupDir (findWhere db mg) db"

definition detectGroups :: "DB \<Rightarrow> DB" where
  "detectGroups db = fold flagGroup (findMovieGroups db) db"

section \<open>From the command line to the server configuration\<close>

text \<open>
  The rest of what \<^verbatim>\<open>main\<close> reads from outside: whether opening the store fails, what
  the directory scan returns for a root path (movies, subtitles, error), and the title
  parser.
\<close>

record Env = OSEnv +
  OpenDB_error :: "string option"
  ScanDir :: "string \<Rightarrow> MovieDirInfo list \<times> SubDirInfo list \<times> string option"
  Parse :: parser

text \<open>
  Modelled from the spec: \<^verbatim>\<open>repository.OpenDB\<close> is not among the sources. It opens the
  storage file at the given path and fails with the error of the environment; the
  connection it returns holds the catalog stored in the file, an empty one when the path
  has no file yet. From then on the rows are followed on the connection. The two tables
  are there from the start, so \<^verbatim>\<open>repository.Migrate\<close> (line 135) has nothing to add.
\<close>

definition OpenDB :: "'a Env_scheme \<Rightarrow> fs \<Rightarrow> string \<Rightarrow> string + DB" where
  "OpenDB env files dbPath =
     (case OpenDB_error env of
        Some e \<Rightarrow> Inl e
      | None \<Rightarrow>
          (case files dbPath of
             None \<Rightarrow> Inr emptyDB
           | Some Directory \<Rightarrow> Inl ''unable to open database file''
           | Some (File db) \<Rightarrow> Inr db))"

text \<open>\<^verbatim>\<open>checkFfmpegInstalled\<close> (lines 283-290).\<close>

definition checkFfmpegInstalled :: "'a OSEnv_scheme \<Rightarrow> bool" where
  "checkFfmpegInstalled env = (if \<not> ffmpegInstalled env then False else True)"

text \<open>
  \<^verbatim>\<open>strings.TrimSpace\<close> on the white space of ASCII (tab, line feed, vertical tab, form
  feed, carriage return, space). Go trims the white space of Unicode beyond ASCII as well
  (U+0085, U+00A0 and others); a key made of those alone is taken as a key here, while
  the program aborts on lines 121-124.
\<close>

definition isSpace :: "char \<Rightarrow> bool" where
  "isSpace c \<longleftrightarrow> c \<in> set [CHR 0x09, CHR 0x0A, CHR 0x0B, CHR 0x0C, CHR 0x0D, CHR '' '']"

definition TrimSpace :: "string \<Rightarrow> string" where
  "TrimSpace s = rev (dropWhile isSpace (rev (dropWhile isSpace s)))"

text \<open>\<^verbatim>\<open>config.ServerConfig\<close> as lines 174-180 fill it.\<close>

record ServerConfig =
  DB :: DB
  Port :: int
  AppDir :: string
  TMDBApiKey :: string
  ScreenResolutions :: "string list"

text \<open>
  \<^verbatim>\<open>main\<close> from its first line to the call of \<^verbatim>\<open>web.NewServer\<close> (lines 93-180). The
  result is either the abort together with the file system at that moment, or the
  configuration the server is built with.
\<close>

definition main_setup ::
  "Env \<Rightarrow> Args \<Rightarrow> fs \<Rightarrow> (abort \<times> fs) + (ServerConfig \<times> fs)" where
  "main_setup env args files =
     (let res = screenRes args in
      if length (parentMoviePath args) = 0 then
        Inl (Panic ''No movie path directory provided, exited'', cleanup env files)
      else if \<not> checkFfmpegInstalled env then
        Inl (Panic ''sorry, you haven't install ffmpeg, INSTALL FFMPEG first!'', files)
      else if length (TrimSpace (tmdbAPIKey args)) = 0 then
        Inl (Panic ''No TMDB Api Key provided, exited'', cleanup env files)
      else
        (case OpenDB env files (getDBPath env) of
           Inl e \<Rightarrow> Inl (Panic (''Unable to create DB connection:'' @ e), cleanup env files)
         | Inr dbConn \<Rightarrow>
             (case ScanDir env (parentMoviePath args) of
                (scannedMovies, subs, err) \<Rightarrow>
                  (case err of
                     Some e \<Rightarrow>
                       Inl (Panic (''Error while scanning movies '' @ e), cleanup env files)
                   | None \<Rightarrow>
                       (case saveMovies (Parse env) dbConn scannedMovies of
                          Inl a \<Rightarrow> Inl (a, files)
                        | Inr db1 \<Rightarrow>
                            (case saveSubs (Parse env) db1 subs of
                               Inl a \<Rightarrow> Inl (a, files)
                             | Inr db2 \<Rightarrow>
                                 Inr (\<lparr>DB = detectGroups db2, Port = serverPort args,
                                       AppDir = getAppDir env, TMDBApiKey = tmdbAPIKey args,
                                       ScreenResolutions = res\<rparr>, files)))))))"

text \<open>A run of the process up to the server: \<^verbatim>\<open>init\<close>, then \<^verbatim>\<open>main\<close>.\<close>

definition run :: "Env \<Rightarrow> Args \<Rightarrow> fs \<Rightarrow> (abort \<times> fs) + (ServerConfig \<times> fs)" where
  "run env args files =
     (case init env files of
        Inl a \<Rightarrow> Inl a
      | Inr files1 \<Rightarrow> main_setup env args files1)"

section \<open>Serving and shutting down\<close>

text \<open>
  Lines 182-214 run as two tasks: \<^verbatim>\<open>main\<close> itself and the function started with
  \<^verbatim>\<open>go\<close> on line 187. Each task is a program counter over its blocking points; a run is
  the initial state followed by a schedule, a list of actions each of which lets one task
  take its next step or lets the surroundings act. A step of a task that is blocked
  changes nothing.

  The server built by \<^verbatim>\<open>web.NewServer\<close> is used through \<^verbatim>\<open>ListenAndServe\<close>,
  \<^verbatim>\<open>SetKeepAlivesEnabled\<close> and \<^verbatim>\<open>Shutdown\<close>, with the behaviour of \<^verbatim>\<open>http.Server\<close>:
  \<^verbatim>\<open>ListenAndServe\<close> returns \<^verbatim>\<open>ErrServerClosed\<close> as soon as \<^verbatim>\<open>Shutdown\<close> has been called
  (at once if that was before), or the error of binding the port; \<^verbatim>\<open>Shutdown\<close> returns
  \<^verbatim>\<open>nil\<close>, or an error such as the one of the expired deadline. Which of these happens is
  given by the surroundings.
\<close>

record RunEnv = Env +
  ListenAndServe_error :: "string option"
  Shutdown_error :: "string option"

datatype mainPC =
    M_Notify       \<comment> \<open>before lines 182-183\<close>
  | M_Go           \<comment> \<open>before lines 185-187\<close>
  | M_Announce     \<comment> \<open>before lines 203-205\<close>
  | M_Listen       \<comment> \<open>before the call on line 206\<close>
  | M_Serving      \<comment> \<open>inside \<^verbatim>\<open>ListenAndServe\<close>, accepting connections\<close>
  | M_ServerDone   \<comment> \<open>at the receive on line 210\<close>
  | M_Cleanup      \<comment> \<open>before line 212\<close>
  | M_Returned     \<comment> \<open>\<^verbatim>\<open>main\<close> has returned\<close>
  | M_Killed       \<comment> \<open>the process was ended by the signal\<close>

datatype watcherPC =
    W_NotStarted
  | W_CloseSignal  \<comment> \<open>at the receive on line 188\<close>
  | W_Shutdown     \<comment> \<open>before lines 189-196\<close>
  | W_InShutdown   \<comment> \<open>inside \<^verbatim>\<open>Shutdown\<close>\<close>
  | W_ServerDone   \<comment> \<open>at the send on line 200\<close>
  | W_Finished

text \<open>
  What a run leaves in its trace. Of the log only the two error lines are recorded.
  \<^verbatim>\<open>ShutdownCalled\<close> carries the timeout of the context, in nanoseconds as
  \<^verbatim>\<open>time.Duration\<close> counts.
\<close>

datatype event =
    SignalNotified
  | WatcherStarted
  | ListenCalled
  | ServingStarted
  | ListenReturned
  | InterruptDelivered
  | InterruptObserved
  | KeepAlivesDisabled
  | ShutdownCalled int
  | ShutdownReturned "string option"
  | LoggedError string
  | DoneSignalled
  | WorkDirRemoved
  | ProcessKilled

datatype action =
    StepMain
  | StepWatcher
  | Interrupt          \<comment> \<open>the operating system raises the interrupt signal\<close>
  | ServeFails         \<comment> \<open>the accept loop of the server gives up with an error\<close>

record ServeState =
  mainAt :: mainPC
  watcherAt :: watcherPC
  closeSignal :: nat          \<comment> \<open>signals waiting in the channel of capacity 1\<close>
  inShutdown :: bool          \<comment> \<open>\<^verbatim>\<open>Shutdown\<close> has been called on the server\<close>
  trace :: "event list"
  disk :: fs

definition Second :: int where
  "Second = 1000000000"

definition emit :: "event list \<Rightarrow> ServeState \<Rightarrow> ServeState" where
  "emit es s = s\<lparr>trace := trace s @ es\<rparr>"

text \<open>
  One step of \<^verbatim>\<open>main\<close>. The channel \<^verbatim>\<open>serverDone\<close> has no buffer: the receive on line
  210 and the send on line 200 happen together, when both tasks stand at them.
\<close>

definition stepMain :: "'a RunEnv_scheme \<Rightarrow> ServeState \<Rightarrow> ServeState" where
  "stepMain env s =
     (case mainAt s of
        M_Notify \<Rightarrow> emit [SignalNotified] (s\<lparr>mainAt := M_Go\<rparr>)
      | M_Go \<Rightarrow> emit [WatcherStarted] (s\<lparr>mainAt := M_Announce, watcherAt := W_CloseSignal\<rparr>)
      | M_Announce \<Rightarrow> s\<lparr>mainAt := M_Listen\<rparr>
      | M_Listen \<Rightarrow>
          if inShutdown s then emit [ListenCalled, ListenReturned] (s\<lparr>mainAt := M_ServerDone\<rparr>)
          else (case ListenAndServe_error env of
                  Some e \<Rightarrow>
                    emit [ListenCalled, ListenReturned, LoggedError ''Unable to start server on port'']
                      (s\<lparr>mainAt := M_ServerDone\<rparr>)
                | None \<Rightarrow> emit [ListenCalled, ServingStarted] (s\<lparr>mainAt := M_Serving\<rparr>))
      | M_Serving \<Rightarrow>
          if inShutdown s then emit [ListenReturned] (s\<lparr>mainAt := M_ServerDone\<rparr>) else s
      | M_ServerDone \<Rightarrow>
          if watcherAt s = W_ServerDone
          then emit [DoneSignalled] (s\<lparr>mainAt := M_Cleanup, watcherAt := W_Finished\<rparr>)
          else s
      | M_Cleanup \<Rightarrow>
          emit [WorkDirRemoved] (s\<lparr>mainAt := M_Returned, disk := cleanup env (disk s)\<rparr>)
      | M_Returned \<Rightarrow> s
      | M_Killed \<Rightarrow> s)"

text \<open>One step of the function of lines 187-201. It runs only while the process does.\<close>

definition stepWatcher :: "'a RunEnv_scheme \<Rightarrow> ServeState \<Rightarrow> ServeState" where
  "stepWatcher env s =
     (if mainAt s = M_Returned \<or> mainAt s = M_Killed then s
      else case watcherAt s of
        W_NotStarted \<Rightarrow> s
      | W_CloseSignal \<Rightarrow>
          if closeSignal s > 0
          then emit [InterruptObserved] (s\<lparr>watcherAt := W_Shutdown, closeSignal := closeSignal s - 1\<rparr>)
          else s
      | W_Shutdown \<Rightarrow>
          emit [KeepAlivesDisabled, ShutdownCalled (Second * 30)]
            (s\<lparr>watcherAt := W_InShutdown, inShutdown := True\<rparr>)
      | W_InShutdown \<Rightarrow>
          (case Shutdown_error env of
             Some err \<Rightarrow>
               emit [ShutdownReturned (Some err), LoggedError ''Couldn't gracefully shutdown'']
                 (s\<lparr>watcherAt := W_ServerDone\<rparr>)
           | None \<Rightarrow> emit [ShutdownReturned None] (s\<lparr>watcherAt := W_ServerDone\<rparr>))
      | W_ServerDone \<Rightarrow>
          if mainAt s = M_ServerDone
          then emit [DoneSignalled] (s\<lparr>mainAt := M_Cleanup, watcherAt := W_Finished\<rparr>)
          else s
      | W_Finished \<Rightarrow> s)"

text \<open>
  The interrupt signal. Before \<^verbatim>\<open>signal.Notify\<close> it ends the process, as is the default for
  the signal. Afterwards it is put into \<^verbatim>\<open>closeSignal\<close>, and dropped when the channel is
  full.
\<close>

definition interrupt :: "ServeState \<Rightarrow> ServeState" where
  "interrupt s =
     (if mainAt s = M_Returned \<or> mainAt s = M_Killed then s
      else if mainAt s = M_Notify then emit [ProcessKilled] (s\<lparr>mainAt := M_Killed\<rparr>)
      else if closeSignal s < 1 then emit [InterruptDelivered] (s\<lparr>closeSignal := closeSignal s + 1\<rparr>)
      else s)"

text \<open>
  The accept loop fails while the server is serving: \<^verbatim>\<open>ListenAndServe\<close> returns an error
  that is not \<^verbatim>\<open>ErrServerClosed\<close>, and line 207 logs it.
\<close>

definition serveFails :: "ServeState \<Rightarrow> ServeState" where
  "serveFails s =
     (if mainAt s = M_Serving \<and> \<not> inShutdown s
      then emit [ListenReturned, LoggedError ''Unable to start server on port'']
             (s\<lparr>mainAt := M_ServerDone\<rparr>)
      else s)"

fun step :: "'a RunEnv_scheme \<Rightarrow> action \<Rightarrow> ServeState \<Rightarrow> ServeState" where
  "step env StepMain s = stepMain env s"
| "step env StepWatcher s = stepWatcher env s"
| "step env Interrupt s = interrupt s"
| "step env ServeFails s = serveFails s"

definition exec :: "'a RunEnv_scheme \<Rightarrow> action list \<Rightarrow> ServeState \<Rightarrow> ServeState" where
  "exec env schedule s = fold (step env) schedule s"

text \<open>The state in which line 182 is reached, with the file system \<^verbatim>\<open>main\<close> has then.\<close>

definition serveStart :: "fs \<Rightarrow> ServeState" where
  "serveStart fs0 =
     \<lparr>mainAt = M_Notify, watcherAt = W_NotStarted, closeSignal = 0, inShutdown = False,
      trace = [], disk = fs0\<rparr>"

text \<open>
  An event matching \<open>Q\<close> is preceded by one matching \<open>P\<close>: reading the trace from the
  start, \<open>P\<close> is met before \<open>Q\<close> is.
\<close>

fun precededBy :: "('e \<Rightarrow> bool) \<Rightarrow> ('e \<Rightarrow> bool) \<Rightarrow> 'e list \<Rightarrow> bool" where
  "precededBy P Q [] = True"
| "precededBy P Q (e # es) = (if P e then True else if Q e then False else precededBy P Q es)"

fun isShutdownCalled :: "event \<Rightarrow> bool" where
  "isShutdownCalled (ShutdownCalled d) = True"
| "isShutdownCalled e = False"

fun isShutdownReturned :: "event \<Rightarrow> bool" where
  "isShutdownReturned (ShutdownReturned r) = True"
| "isShutdownReturned e = False"

text \<open>
  A schedule of \<open>n\<close> rounds in each of which the watcher and then \<^verbatim>\<open>main\<close> take a step.
\<close>

fun bothRun :: "nat \<Rightarrow> action list" where
  "bothRun 0 = []"
| "bothRun (Suc n) = StepWatcher # StepMain # bothRun n"

section \<open>Notions used in the proofs\<close>

text \<open>
  The program counters in the order in which each task passes them (a process ended by
  the signal counts as not started).
\<close>

fun mainRank :: "mainPC \<Rightarrow> nat" where
  "mainRank M_Notify = 0"
| "mainRank M_Go = 1"
| "mainRank M_Announce = 2"
| "mainRank M_Listen = 3"
| "mainRank M_Serving = 4"
| "mainRank M_ServerDone = 5"
| "mainRank M_Cleanup = 6"
| "mainRank M_Returned = 7"
| "mainRank M_Killed = 0"

fun watcherRank :: "watcherPC \<Rightarrow> nat" where
  "watcherRank W_NotStarted = 0"
| "watcherRank W_CloseSignal = 1"
| "watcherRank W_Shutdown = 2"
| "watcherRank W_InShutdown = 3"
| "watcherRank W_ServerDone = 4"
| "watcherRank W_Finished = 5"

text \<open>How the two program counters, the signal channel and the server go together.\<close>

definition pcInv :: "ServeState \<Rightarrow> bool" where
  "pcInv s \<longleftrightarrow>
     (watcherAt s = W_NotStarted \<longleftrightarrow> mainRank (mainAt s) < 2) \<and>
     (mainRank (mainAt s) = 0 \<longrightarrow> closeSignal s = 0) \<and>
     closeSignal s \<le> 1 \<and>
     (inShutdown s \<longleftrightarrow> 3 \<le> watcherRank (watcherAt s)) \<and>
     (watcherAt s = W_Finished \<longleftrightarrow> 6 \<le> mainRank (mainAt s))"

text \<open>What the trace holds once a task has passed a point.\<close>

definition traceInv :: "ServeState \<Rightarrow> bool" where
  "traceInv s \<longleftrightarrow>
     (1 \<le> watcherRank (watcherAt s) \<longrightarrow> WatcherStarted \<in> set (trace s)) \<and>
     (2 \<le> watcherRank (watcherAt s) \<longrightarrow> InterruptObserved \<in> set (trace s)) \<and>
     (3 \<le> watcherRank (watcherAt s) \<longrightarrow> (\<exists>e \<in> set (trace s). isShutdownCalled e)) \<and>
     (4 \<le> watcherRank (watcherAt s) \<longrightarrow> (\<exists>e \<in> set (trace s). isShutdownReturned e)) \<and>
     (5 \<le> watcherRank (watcherAt s) \<longrightarrow> DoneSignalled \<in> set (trace s)) \<and>
     (0 < closeSignal s \<longrightarrow> InterruptDelivered \<in> set (trace s)) \<and>
     (InterruptDelivered \<in> set (trace s) \<longrightarrow>
        mainAt s \<noteq> M_Notify \<and> mainAt s \<noteq> M_Killed \<and>
        (0 < closeSignal s \<or> 2 \<le> watcherRank (watcherAt s))) \<and>
     (\<forall>e \<in> set (trace s). isShutdownCalled e \<longrightarrow> e = ShutdownCalled (Second * 30)) \<and>
     (mainAt s = M_Returned \<longrightarrow> WorkDirRemoved \<in> set (trace s))"

text \<open>The order of the events of a trace.\<close>

definition orderInv :: "ServeState \<Rightarrow> bool" where
  "orderInv s \<longleftrightarrow>
     precededBy (\<lambda>e. e = WatcherStarted) (\<lambda>e. e = InterruptObserved) (trace s) \<and>
     precededBy (\<lambda>e. e = InterruptDelivered) (\<lambda>e. e = InterruptObserved) (trace s) \<and>
     precededBy (\<lambda>e. e = InterruptObserved) isShutdownCalled (trace s) \<and>
     precededBy isShutdownCalled isShutdownReturned (trace s) \<and>
     precededBy isShutdownReturned (\<lambda>e. e = DoneSignalled) (trace s) \<and>
     precededBy (\<lambda>e. e = DoneSignalled) (\<lambda>e. e = WorkDirRemoved) (trace s) \<and>
     precededBy isShutdownReturned (\<lambda>e. e = WorkDirRemoved) (trace s) \<and>
     precededBy (\<lambda>e. e = InterruptObserved) isShutdownReturned (trace s)"

text \<open>The working directory and the result of \<^verbatim>\<open>Shutdown\<close>.\<close>

definition diskInv :: "'a RunEnv_scheme \<Rightarrow> ServeState \<Rightarrow> bool" where
  "diskInv env s \<longleftrightarrow>
     (mainAt s = M_Returned \<longrightarrow> disk s (getAppDir env) = None) \<and>
     (4 \<le> watcherRank (watcherAt s) \<longrightarrow>
        ShutdownReturned (Shutdown_error env) \<in> set (trace s) \<and>
        (Shutdown_error env \<noteq> None \<longrightarrow>
           LoggedError ''Couldn't gracefully shutdown'' \<in> set (trace s)))"

definition serveInv :: "'a RunEnv_scheme \<Rightarrow> ServeState \<Rightarrow> bool" where
  "serveInv env s \<longleftrightarrow> pcInv s \<and> traceInv s \<and> orderInv s \<and> diskInv env s"

text \<open>
  The interrupt is in the channel or has been taken out of it, and the process is alive.
\<close>

definition signalled :: "ServeState \<Rightarrow> bool" where
  "signalled s \<longleftrightarrow>
     mainAt s \<noteq> M_Notify \<and> mainAt s \<noteq> M_Killed \<and>
     (0 < closeSignal s \<or> 2 \<le> watcherRank (watcherAt s))"

text \<open>
  A bound on the rounds of \<open>bothRun\<close> that \<^verbatim>\<open>main\<close> needs to return, once the interrupt
  has been delivered.
\<close>

fun mainLeft :: "mainPC \<Rightarrow> nat" where
  "mainLeft M_Notify = 5"
| "mainLeft M_Go = 5"
| "mainLeft M_Announce = 3"
| "mainLeft M_Listen = 2"
| "mainLeft M_Serving = 2"
| "mainLeft M_ServerDone = 1"
| "mainLeft M_Cleanup = 1"
| "mainLeft M_Returned = 0"
| "mainLeft M_Killed = 5"

definition roundsLeft :: "ServeState \<Rightarrow> nat" where
  "roundsLeft s = max (5 - watcherRank (watcherAt s)) (mainLeft (mainAt s))"

text \<open>The rows whose key satisfies \<open>p\<close> get the flag; nothing else changes.\<close>

definition flagBy :: "(nat \<Rightarrow> bool) \<Rightarrow> Movie list \<Rightarrow> Movie list" where
  "flagBy p rows = map (\<lambda>r. if p (ID r) then r\<lparr>IsGroupDir := True\<rparr> else r) rows"

text \<open>The keys reached by the updates for the rows \<open>ms\<close>.\<close>

definition idHit :: "Movie list \<Rightarrow> nat \<Rightarrow> bool" where
  "idHit ms i \<longleftrightarrow> (\<exists>m \<in> set ms. ID m = 0 \<or> i = ID m)"

text \<open>The keys reached while the groups \<open>gs\<close> are worked through on the table \<open>rows\<close>.\<close>

definition groupHit :: "Movie list \<Rightarrow> Movie list \<Rightarrow> nat \<Rightarrow> bool" where
  "groupHit rows gs i \<longleftrightarrow> (\<exists>mg \<in> set gs. idHit (filter (whereMatches mg) rows) i)"


section \<open>Example inputs\<close>

definition titleParser :: parser where
  "titleParser name = (Some \<lparr>Title = takeWhile (\<lambda>c. c \<noteq> CHR ''.'') name\<rparr>, None)"

text \<open>
  Two parsers that fail on part of their inputs: the first finds a title in the two file
  names only, the second in the directory name only, and both return \<^verbatim>\<open>nil\<close> with their
  error.
\<close>

definition fileOnlyParser :: parser where
  "fileOnlyParser name =
     (if name = ''Film.2020.1080p.WEB.mkv'' \<or> name = ''Film.2020.1080p.WEB.srt''
      then (Some \<lparr>Title = ''Film''\<rparr>, None)
      else (None, Some ''no title found''))"

definition dirOnlyParser :: parser where
  "dirOnlyParser name =
     (if name = ''Film.2020.1080p.WEB'' then (Some \<lparr>Title = ''Film''\<rparr>, None)
      else (None, Some ''no title found''))"

definition filmMovie :: MovieDirInfo where
  "filmMovie =
     \<lparr>Dir = ''/movies/Film.2020.1080p.WEB'', MovieFile = ''Film.2020.1080p.WEB.mkv'',
      MovieSize = 700, MimeType = ''video/x-matroska''\<rparr>"

definition filmSub :: SubDirInfo where
  "filmSub = \<lparr>Dir = ''/movies/Film.2020.1080p.WEB'', SubFile = ''Film.2020.1080p.WEB.srt''\<rparr>"


definition homeEnv :: Env where
  "homeEnv =
     \<lparr>UserCacheDir = (''/home/u/.cache'', None), MkdirAll_fails = False,
      Remove_fails = False, Create_fails = False, ffmpegInstalled = True,
      OpenDB_error = None, ScanDir = (\<lambda>root. ([filmMovie], [filmSub], None)),
      Parse = titleParser\<rparr>"

definition homeArgs :: Args where
  "homeArgs =
     \<lparr>parentMoviePath = ''/movies'', serverPort = 1818, tmdbAPIKey = ''k3y'',
      resolutionTokens = []\<rparr>"

text \<open>A store left behind by an earlier run, and a file system holding it.\<close>

definition staleDB :: DB where
  "staleDB =
     \<lparr>movies =
        [\<lparr>ID = 1, DirPath = ''/old'', DirName = ''old'', CleanDirName = ''old'',
          BaseName = ''old.avi'', CleanBaseName = ''old'', FileSize = 1,
          MovieMimeType = ''video/x-msvideo'', IsGroupDir = True, IsPrepared = True\<rparr>],
      subtitles = []\<rparr>"

definition homeFiles :: fs where
  "homeFiles =
     [''/home/u/.cache/voodioapp'' \<mapsto> Directory,
      ''/home/u/.cache/voodioapp/voodio.db'' \<mapsto> File staleDB]"





text \<open>
  A catalog with two episodes in one directory, a film in another, and two subtitles
  beside the film.
\<close>

definition showDB :: DB where
  "showDB =
     \<lparr>movies =
        [\<lparr>ID = 1, DirPath = ''/movies/Show.S01'', DirName = ''Show.S01'', CleanDirName = ''Show'',
          BaseName = ''ep1.mkv'', CleanBaseName = ''ep1'', FileSize = 350,
          MovieMimeType = ''video/x-matroska'', IsGroupDir = False, IsPrepared = False\<rparr>,
         \<lparr>ID = 2, DirPath = ''/movies/Show.S01'', DirName = ''Show.S01'', CleanDirName = ''Show'',
          BaseName = ''ep2.mkv'', CleanBaseName = ''ep2'', FileSize = 350,
          MovieMimeType = ''video/x-matroska'', IsGroupDir = False, IsPrepared = False\<rparr>,
         \<lparr>ID = 3, DirPath = ''/movies/Film.2020.1080p.WEB'', DirName = ''Film.2020.1080p.WEB'',
          CleanDirName = ''Film'', BaseName = ''Film.2020.1080p.WEB.mkv'', CleanBaseName = ''Film'',
          FileSize = 700, MovieMimeType = ''video/x-matroska'', IsGroupDir = False,
          IsPrepared = False\<rparr>],
      subtitles =
        [\<lparr>ID = 1, DirPath = ''/movies/Film.2020.1080p.WEB'', DirName = ''Film.2020.1080p.WEB'',
          CleanDirName = ''Film'', BaseName = ''Film.2020.1080p.WEB.srt'', CleanBaseName = ''Film''\<rparr>,
         \<lparr>ID = 2, DirPath = ''/movies/Film.2020.1080p.WEB'', DirName = ''Film.2020.1080p.WEB'',
          CleanDirName = ''Film'', BaseName = ''Film.2020.1080p.WEB.en.srt'', CleanBaseName = ''Film''\<rparr>]\<rparr>"

text \<open>The example run with a server that binds its port and shuts down in time.\<close>

definition homeRunEnv :: RunEnv where
  "homeRunEnv =
     \<lparr>UserCacheDir = (''/home/u/.cache'', None), MkdirAll_fails = False,
      Remove_fails = False, Create_fails = False, ffmpegInstalled = True,
      OpenDB_error = None, ScanDir = (\<lambda>root. ([filmMovie], [filmSub], None)),
      Parse = titleParser, ListenAndServe_error = None, Shutdown_error = None\<rparr>"

section \<open>Paths, the working directory and the storage file\<close>

lemma Join_empty_base: "Join [[], appDirName] = ''voodioapp''"
  by (simp add: Join_def Clean_def appDirName_def Separator_def)


lemma RemoveAll_self: "RemoveAll p files p = None"
  by (simp add: RemoveAll_def)

lemma cleanup_removes: "cleanup env files (getAppDir env) = None"
  by (simp add: cleanup_def RemoveAll_self)

lemma init_db_file: "init env files = Inr files' \<Longrightarrow> files' (getDBPath env) = Some (File emptyDB)"
  by (auto simp: init_def Let_def split: if_splits sum.splits)

lemma home_appdir:
  "UserCacheDir env = (''/home/u/.cache'', None) \<Longrightarrow> getAppDir env = ''/home/u/.cache/voodioapp''"
  by (simp add: getAppDir_def cacheDir_def Join_def Clean_def appDirName_def Separator_def)

lemma home_dbpath:
  "UserCacheDir env = (''/home/u/.cache'', None) \<Longrightarrow>
     getDBPath env = ''/home/u/.cache/voodioapp/voodio.db''"
  by (simp add: getDBPath_def home_appdir Join_def Clean_def dbFileName_def Separator_def)

lemma home_init:
  assumes "UserCacheDir env = (''/home/u/.cache'', None)"
    and "\<not> MkdirAll_fails env" and "\<not> Remove_fails env" and "\<not> Create_fails env"
  shows "init env homeFiles =
           Inr (homeFiles(''/home/u/.cache/voodioapp/voodio.db'' \<mapsto> File emptyDB))"
  using assms(2-4)
  by (simp add: init_def home_appdir [OF assms(1)] home_dbpath [OF assms(1)] homeFiles_def)

lemma homeEnv_sel:
  "UserCacheDir homeEnv = (''/home/u/.cache'', None)"
  "MkdirAll_fails homeEnv = False" "Remove_fails homeEnv = False" "Create_fails homeEnv = False"
  "ffmpegInstalled homeEnv = True" "OpenDB_error homeEnv = None"
  "ScanDir homeEnv root = ([filmMovie], [filmSub], None)" "Parse homeEnv = titleParser"
  by (simp_all add: homeEnv_def)

lemma homeEnv_appdir: "getAppDir homeEnv = ''/home/u/.cache/voodioapp''"
  by (rule home_appdir) (simp add: homeEnv_sel)

lemma homeEnv_dbpath: "getDBPath homeEnv = ''/home/u/.cache/voodioapp/voodio.db''"
  by (rule home_dbpath) (simp add: homeEnv_sel)

lemma homeEnv_init:
  "init homeEnv homeFiles =
     Inr (homeFiles(''/home/u/.cache/voodioapp/voodio.db'' \<mapsto> File emptyDB))"
  by (rule home_init) (simp_all add: homeEnv_sel)

lemma homeFiles_db: "homeFiles (getDBPath homeEnv) = Some (File staleDB)"
  by (simp add: homeEnv_dbpath homeFiles_def)

text \<open>
  C10. When \<^verbatim>\<open>os.UserCacheDir\<close> fails (it then returns the empty string and an error), the
  error is dropped: the working directory is the relative path \<^verbatim>\<open>voodioapp\<close>, the storage
  file is \<^verbatim>\<open>voodioapp/voodio.db\<close>, \<^verbatim>\<open>init\<close> does what it does for an empty cache root without
  error, and if no call on the file system fails \<^verbatim>\<open>init\<close> does not abort but leaves the
  directory and the empty storage file at those paths.
\<close>

theorem cache_dir_error_discarded:
  assumes "UserCacheDir env = ([], Some e)"
  shows "getAppDir env = ''voodioapp'' \<and> getDBPath env = ''voodioapp/voodio.db'' \<and>
         init env files = init (env\<lparr>UserCacheDir := ([], None)\<rparr>) files \<and>
         (\<not> MkdirAll_fails env \<and> \<not> Remove_fails env \<and> \<not> Create_fails env \<longrightarrow>
            (\<exists>files'. init env files = Inr files' \<and> files' ''voodioapp'' \<noteq> None \<and>
               files' ''voodioapp/voodio.db'' = Some (File emptyDB)))"
proof -
  have app: "getAppDir env = ''voodioapp''"
    using assms by (simp add: getAppDir_def cacheDir_def Join_empty_base)
  have db: "getDBPath env = ''voodioapp/voodio.db''"
    by (simp add: getDBPath_def app Join_def Clean_def dbFileName_def Separator_def)
  have same: "init env files = init (env\<lparr>UserCacheDir := ([], None)\<rparr>) files"
    using assms by (simp add: init_def Let_def getDBPath_def getAppDir_def cacheDir_def)
  have "\<exists>files'. init env files = Inr files' \<and> files' ''voodioapp'' \<noteq> None \<and>
               files' ''voodioapp/voodio.db'' = Some (File emptyDB)"
    if "\<not> MkdirAll_fails env" "\<not> Remove_fails env" "\<not> Create_fails env"
    using that by (auto simp: init_def Let_def app db MkdirAll_def)
  with app db same show ?thesis by blast
qed

text \<open>C10 with the error of a system without home directory, on an empty file system.\<close>

theorem cache_dir_error_discarded_witness:
  "UserCacheDir (homeEnv\<lparr>UserCacheDir := ([], Some ''neither $XDG_CACHE_HOME nor $HOME are defined'')\<rparr>)
     = ([], Some ''neither $XDG_CACHE_HOME nor $HOME are defined'') \<and>
   getAppDir (homeEnv\<lparr>UserCacheDir := ([], Some ''neither $XDG_CACHE_HOME nor $HOME are defined'')\<rparr>)
     = ''voodioapp'' \<and>
   (\<exists>files'. init (homeEnv\<lparr>UserCacheDir := ([], Some ''neither $XDG_CACHE_HOME nor $HOME are defined'')\<rparr>)
       Map.empty = Inr files' \<and> files' ''voodioapp'' \<noteq> None)"
proof -
  let ?env = "homeEnv\<lparr>UserCacheDir := ([], Some ''neither $XDG_CACHE_HOME nor $HOME are defined'')\<rparr>"
  have u: "UserCacheDir ?env = ([], Some ''neither $XDG_CACHE_HOME nor $HOME are defined'')"
    by simp
  have f: "\<not> MkdirAll_fails ?env \<and> \<not> Remove_fails ?env \<and> \<not> Create_fails ?env"
    by (simp add: homeEnv_sel)
  note facts = cache_dir_error_discarded [OF u, of Map.empty]
  have a: "getAppDir ?env = ''voodioapp''"
    using facts by (rule conjunct1)
  have "\<exists>files'. init ?env Map.empty = Inr files' \<and> files' ''voodioapp'' \<noteq> None"
    using facts f by blast
  with u a show ?thesis
    by blast
qed

section \<open>The command line\<close>

lemma foldl_resolutionParam_Set: "foldl resolutionParam_Set acc tokens = acc @ tokens"
  by (induction tokens arbitrary: acc) (simp_all add: resolutionParam_Set_def)

lemma screenRes_eq:
  "screenRes args =
     (if resolutionTokens args = [] then [''360p'', ''480p'', ''720p'', ''1080p'']
      else resolutionTokens args)"
  by (simp add: screenRes_def foldl_resolutionParam_Set)

section \<open>The catalog writer\<close>

lemma saveMovie_abort: "saveMovie P db movie = Inl a \<Longrightarrow> a = NilDereference"
  by (auto simp: saveMovie_def Let_def titleOf_def
        split: prod.splits sum.splits if_splits option.splits)

lemma saveMovies_abort: "saveMovies P db ms = Inl a \<Longrightarrow> a = NilDereference"
  by (induction ms arbitrary: db) (auto split: sum.splits dest: saveMovie_abort)

lemma saveSub_abort: "saveSub P db sub = Inl a \<Longrightarrow> a = NilDereference"
  by (auto simp: saveSub_def Let_def titleOf_def
        split: prod.splits sum.splits if_splits option.splits)

lemma saveSubs_abort: "saveSubs P db ss = Inl a \<Longrightarrow> a = NilDereference"
  by (induction ss arbitrary: db) (auto split: sum.splits dest: saveSub_abort)

text \<open>What one pass of the loop stores.\<close>

lemma saveMovie_row:
  assumes "saveMovie P db movie = Inr db'"
  shows "\<exists>r. movies db' = movies db @ [r] \<and> subtitles db' = subtitles db \<and>
           DirPath r = Dir movie \<and> DirName r = Base (Dir movie) \<and> BaseName r = MovieFile movie \<and>
           \<not> IsGroupDir r \<and> ID r = nextID (movies db)"
  using assms
  by (auto simp: saveMovie_def Let_def Create_Movie_def split: prod.splits sum.splits if_splits)

lemma saveSub_row:
  assumes "saveSub P db sub = Inr db'"
  shows "\<exists>r. subtitles db' = subtitles db @ [r] \<and> movies db' = movies db \<and>
           DirPath r = Dir sub \<and> DirName r = Base (Dir sub) \<and> BaseName r = SubFile sub"
  using assms
  by (auto simp: saveSub_def Let_def Create_Subtitle_def split: prod.splits sum.splits if_splits)

lemma saveMovies_rows:
  "saveMovies P db ms = Inr db' \<Longrightarrow>
     map (\<lambda>r. (DirPath r, BaseName r)) (movies db') =
       map (\<lambda>r. (DirPath r, BaseName r)) (movies db) @ map (\<lambda>e. (Dir e, MovieFile e)) ms \<and>
     subtitles db' = subtitles db"
proof (induction ms arbitrary: db)
  case Nil
  then show ?case by simp
next
  case (Cons m ms)
  from Cons.prems obtain db1 where s1: "saveMovie P db m = Inr db1"
    and rest: "saveMovies P db1 ms = Inr db'"
    by (auto split: sum.splits)
  from saveMovie_row [OF s1] Cons.IH [OF rest] show ?case
    by auto
qed

lemma saveSubs_rows:
  "saveSubs P db ss = Inr db' \<Longrightarrow>
     map (\<lambda>r. (DirPath r, BaseName r)) (subtitles db') =
       map (\<lambda>r. (DirPath r, BaseName r)) (subtitles db) @ map (\<lambda>e. (Dir e, SubFile e)) ss \<and>
     movies db' = movies db"
proof (induction ss arbitrary: db)
  case Nil
  then show ?case by simp
next
  case (Cons x ss)
  from Cons.prems obtain db1 where s1: "saveSub P db x = Inr db1"
    and rest: "saveSubs P db1 ss = Inr db'"
    by (auto split: sum.splits)
  from saveSub_row [OF s1] Cons.IH [OF rest] show ?case
    by auto
qed

lemma saveMovie_total:
  assumes "\<forall>name. fst (P name) \<noteq> None"
  shows "\<exists>db'. saveMovie P db movie = Inr db'"
proof -
  obtain i e where d: "P (Base (Dir movie)) = (Some i, e)"
    using assms by (cases "P (Base (Dir movie))") (auto dest: spec [of _ "Base (Dir movie)"])
  obtain j e' where b: "P (MovieFile movie) = (Some j, e')"
    using assms by (cases "P (MovieFile movie)") (auto dest: spec [of _ "MovieFile movie"])
  show ?thesis
    by (simp add: saveMovie_def d b titleOf_def)
qed

lemma saveMovies_total:
  assumes "\<forall>name. fst (P name) \<noteq> None"
  shows "\<exists>db'. saveMovies P db ms = Inr db'"
proof (induction ms arbitrary: db)
  case Nil
  show ?case by simp
next
  case (Cons m ms)
  obtain db1 where "saveMovie P db m = Inr db1"
    using saveMovie_total [OF assms] by blast
  with Cons.IH [of db1] show ?case by simp
qed

lemma saveSub_total:
  assumes "\<forall>name. fst (P name) \<noteq> None"
  shows "\<exists>db'. saveSub P db sub = Inr db'"
proof -
  obtain i e where d: "P (Base (Dir sub)) = (Some i, e)"
    using assms by (cases "P (Base (Dir sub))") (auto dest: spec [of _ "Base (Dir sub)"])
  obtain j e' where b: "P (SubFile sub) = (Some j, e')"
    using assms by (cases "P (SubFile sub)") (auto dest: spec [of _ "SubFile sub"])
  show ?thesis
    by (simp add: saveSub_def d b titleOf_def)
qed

lemma saveSubs_total:
  assumes "\<forall>name. fst (P name) \<noteq> None"
  shows "\<exists>db'. saveSubs P db ss = Inr db'"
proof (induction ss arbitrary: db)
  case Nil
  show ?case by simp
next
  case (Cons x ss)
  obtain db1 where "saveSub P db x = Inr db1"
    using saveSub_total [OF assms] by blast
  with Cons.IH [of db1] show ?case by simp
qed

lemma film_base: "Base (Dir filmMovie) = ''Film.2020.1080p.WEB''"
  "Base (Dir filmSub) = ''Film.2020.1080p.WEB''"
  by (simp_all add: filmMovie_def filmSub_def Base_def Separator_def)

text \<open>
  C1. The clean base name is meant to be the title found in the file name, and empty
  exactly when the parser fails on the file name. In \<^verbatim>\<open>saveMovies\<close> and \<^verbatim>\<open>saveSubs\<close> the
  test before the assignment reads the error of the directory name instead. With a parser
  that finds the title \<^verbatim>\<open>Film\<close> in the file name and fails on the directory name, the
  stored clean base name is empty, for the movie and for the subtitle. With a parser that
  succeeds on the directory name and fails on the file name, nothing is stored: the title
  is read through the \<^verbatim>\<open>nil\<close> pointer and the run panics.
\<close>

theorem clean_base_name_reads_directory_error:
  "fileOnlyParser (MovieFile filmMovie) = (Some \<lparr>Title = ''Film''\<rparr>, None) \<and>
   fileOnlyParser (Base (Dir filmMovie)) = (None, Some ''no title found'') \<and>
   saveMovies fileOnlyParser emptyDB [filmMovie] =
     Inr \<lparr>movies =
            [\<lparr>ID = 1, DirPath = ''/movies/Film.2020.1080p.WEB'', DirName = ''Film.2020.1080p.WEB'',
              CleanDirName = [], BaseName = ''Film.2020.1080p.WEB.mkv'', CleanBaseName = [],
              FileSize = 700, MovieMimeType = ''video/x-matroska'', IsGroupDir = False,
              IsPrepared = False\<rparr>],
          subtitles = []\<rparr> \<and>
   saveSubs fileOnlyParser emptyDB [filmSub] =
     Inr \<lparr>movies = [],
          subtitles =
            [\<lparr>ID = 1, DirPath = ''/movies/Film.2020.1080p.WEB'', DirName = ''Film.2020.1080p.WEB'',
              CleanDirName = [], BaseName = ''Film.2020.1080p.WEB.srt'', CleanBaseName = []\<rparr>]\<rparr> \<and>
   dirOnlyParser (MovieFile filmMovie) = (None, Some ''no title found'') \<and>
   saveMovies dirOnlyParser emptyDB [filmMovie] = Inl NilDereference"
  by (simp add: film_base saveMovie_def saveSub_def Create_Movie_def Create_Subtitle_def
        nextID_def emptyDB_def titleOf_def fileOnlyParser_def dirOnlyParser_def)
    (simp add: filmMovie_def filmSub_def)

section \<open>The detection pass as one update\<close>

lemma flagBy_flagBy: "flagBy p (flagBy q rows) = flagBy (sup q p) rows"
  by (induction rows) (auto simp: flagBy_def)

lemma flagBy_False: "flagBy (\<lambda>i. False) rows = rows"
  by (induction rows) (auto simp: flagBy_def)

lemma flagBy_bot: "flagBy bot rows = rows"
  by (simp add: bot_fun_def flagBy_False)

lemma map_ID_flagBy: "map ID (flagBy p rows) = map ID rows"
  by (induction rows) (auto simp: flagBy_def)

lemma map_groupKey_flagBy: "map groupKey (flagBy p rows) = map groupKey rows"
  by (induction rows) (auto simp: flagBy_def groupKey_def)

lemma filter_whereMatches_flagBy:
  "filter (whereMatches c) (flagBy p rows) = flagBy p (filter (whereMatches c) rows)"
  by (induction rows) (auto simp: flagBy_def whereMatches_def)

lemma idHit_Nil: "idHit [] = bot"
  by (auto simp: idHit_def fun_eq_iff)

lemma idHit_Cons: "idHit (m # ms) = sup (idHit [m]) (idHit ms)"
  by (auto simp: idHit_def fun_eq_iff)

lemma idHit_map_ID: "map ID ms = map ID ms' \<Longrightarrow> idHit ms = idHit ms'"
proof -
  assume "map ID ms = map ID ms'"
  then have eq: "ID ` set ms = ID ` set ms'"
    by (metis set_map)
  have img: "idHit xs i \<longleftrightarrow> (\<exists>k \<in> ID ` set xs. k = 0 \<or> i = k)" for xs i
    unfolding idHit_def by blast
  show ?thesis
    unfolding fun_eq_iff img eq by simp
qed

lemma updateIsGroupDir_flagBy:
  "updateIsGroupDir m db = db\<lparr>movies := flagBy (idHit [m]) (movies db)\<rparr>"
  by (simp add: updateIsGroupDir_def flagBy_def idHit_def)

lemma fold_updateIsGroupDir:
  "fold updateIsGroupDir ms db = db\<lparr>movies := flagBy (idHit ms) (movies db)\<rparr>"
proof (induction ms arbitrary: db)
  case Nil
  show ?case by (simp add: idHit_Nil flagBy_False bot_fun_def)
next
  case (Cons m ms)
  have "fold updateIsGroupDir (m # ms) db = fold updateIsGroupDir ms (updateIsGroupDir m db)"
    by simp
  also have "\<dots> = db\<lparr>movies := flagBy (idHit ms) (flagBy (idHit [m]) (movies db))\<rparr>"
    unfolding Cons.IH by (simp add: updateIsGroupDir_flagBy)
  also have "\<dots> = db\<lparr>movies := flagBy (idHit (m # ms)) (movies db)\<rparr>"
    by (simp only: flagBy_flagBy idHit_Cons [of m ms])
  finally show ?case .
qed

lemma idHit_filter_flagBy:
  "idHit (filter (whereMatches mg) (flagBy p rows)) = idHit (filter (whereMatches mg) rows)"
  by (rule idHit_map_ID) (simp only: filter_whereMatches_flagBy map_ID_flagBy)

lemma groupHit_flagBy: "groupHit (flagBy p rows) gs = groupHit rows gs"
  by (simp add: groupHit_def fun_eq_iff idHit_filter_flagBy)

lemma groupHit_Nil: "groupHit rows [] = bot"
  by (auto simp: groupHit_def fun_eq_iff)

lemma groupHit_Cons: "groupHit rows (g # gs) = sup (groupHit rows [g]) (groupHit rows gs)"
  by (auto simp: groupHit_def fun_eq_iff)

lemma flagGroup_flagBy:
  "flagGroup mg db = db\<lparr>movies := flagBy (groupHit (movies db) [mg]) (movies db)\<rparr>"
proof -
  have "groupHit (movies db) [mg] = idHit (findWhere db mg)"
    by (simp add: groupHit_def findWhere_def fun_eq_iff)
  then show ?thesis
    by (simp add: flagGroup_def fold_updateIsGroupDir)
qed

lemma fold_flagGroup:
  "fold flagGroup gs db = db\<lparr>movies := flagBy (groupHit (movies db) gs) (movies db)\<rparr>"
proof (induction gs arbitrary: db)
  case Nil
  show ?case by (simp add: groupHit_Nil flagBy_False bot_fun_def)
next
  case (Cons g gs)
  have "fold flagGroup (g # gs) db = fold flagGroup gs (flagGroup g db)"
    by simp
  also have "\<dots> = db\<lparr>movies := flagBy (groupHit (movies db) gs)
                                  (flagBy (groupHit (movies db) [g]) (movies db))\<rparr>"
    unfolding Cons.IH by (simp add: flagGroup_flagBy groupHit_flagBy)
  also have "\<dots> = db\<lparr>movies := flagBy (groupHit (movies db) (g # gs)) (movies db)\<rparr>"
    by (simp only: flagBy_flagBy groupHit_Cons [of _ g gs])
  finally show ?case .
qed

lemma detectGroups_flagBy:
  "detectGroups db =
     db\<lparr>movies := flagBy (groupHit (movies db) (findMovieGroups db)) (movies db)\<rparr>"
  by (simp add: detectGroups_def fold_flagGroup)

lemma groupCount_map: "groupCount rows k = length (filter (\<lambda>x. x = k) (map groupKey rows))"
  by (induction rows) (auto simp: groupCount_def)

lemma groupCount_flagBy: "groupCount (flagBy p rows) k = groupCount rows k"
  by (simp add: groupCount_map map_groupKey_flagBy)

lemma findMovieGroups_flagBy:
  "findMovieGroups (db\<lparr>movies := flagBy p (movies db)\<rparr>) = findMovieGroups db"
  by (simp add: findMovieGroups_def map_groupKey_flagBy groupCount_flagBy)

lemma detectGroups_idem: "detectGroups (detectGroups db) = detectGroups db"
proof -
  let ?h = "groupHit (movies db) (findMovieGroups db)"
  let ?db1 = "db\<lparr>movies := flagBy ?h (movies db)\<rparr>"
  have "detectGroups ?db1 = ?db1\<lparr>movies := flagBy (groupHit (movies ?db1) (findMovieGroups ?db1)) (movies ?db1)\<rparr>"
    by (rule detectGroups_flagBy)
  also have "findMovieGroups ?db1 = findMovieGroups db"
    by (rule findMovieGroups_flagBy)
  also have "movies ?db1 = flagBy ?h (movies db)"
    by simp
  also have "groupHit (flagBy ?h (movies db)) (findMovieGroups db) = ?h"
    by (rule groupHit_flagBy)
  also have "flagBy ?h (flagBy ?h (movies db)) = flagBy ?h (movies db)"
    by (simp add: flagBy_flagBy)
  finally have "detectGroups ?db1 = ?db1"
    by simp
  then show ?thesis
    by (simp only: detectGroups_flagBy [of db])
qed

lemma showDB_detect:
  "map (\<lambda>r. (ID r, IsGroupDir r)) (movies (detectGroups showDB)) = [(1, True), (2, True), (3, False)]"
  by code_simp

text \<open>
  C3. The detection pass is idempotent: on every catalog, a second pass right after the
  first leaves every record with the flag the first pass gave it.
\<close>

theorem detection_idempotent:
  "map (\<lambda>r. (ID r, IsGroupDir r)) (movies (detectGroups (detectGroups db))) =
   map (\<lambda>r. (ID r, IsGroupDir r)) (movies (detectGroups db))"
  by (simp only: detectGroups_idem)

text \<open>C3 on the example catalog: the flags after one pass and after two.\<close>

theorem detection_idempotent_witness:
  "map (\<lambda>r. (ID r, IsGroupDir r)) (movies (detectGroups showDB)) = [(1, True), (2, True), (3, False)] \<and>
   map (\<lambda>r. (ID r, IsGroupDir r)) (movies (detectGroups (detectGroups showDB))) =
     [(1, True), (2, True), (3, False)]"
  using detection_idempotent [of showDB] showDB_detect by simp

text \<open>
  C4. Subtitle records are never flagged: the detection pass leaves the table of
  subtitles as it is, and what it does to the movies is the same whatever the table of
  subtitles holds. (A subtitle record has no flag; only movie records are looked at.)
\<close>

theorem subtitles_outside_detection:
  "subtitles (detectGroups db) = subtitles db \<and>
   movies (detectGroups (db\<lparr>subtitles := ss\<rparr>)) = movies (detectGroups db)"
proof -
  have "findMovieGroups (db\<lparr>subtitles := ss\<rparr>) = findMovieGroups db"
    by (simp add: findMovieGroups_def)
  then show ?thesis
    by (simp add: detectGroups_flagBy)
qed

text \<open>
  C4 on the example catalog, where two subtitles share a directory: the subtitles stay,
  and the flags of the movies are those found without any subtitle.
\<close>

theorem subtitles_outside_detection_witness:
  "map BaseName (subtitles (detectGroups showDB)) =
     [''Film.2020.1080p.WEB.srt'', ''Film.2020.1080p.WEB.en.srt''] \<and>
   map (\<lambda>r. (ID r, IsGroupDir r)) (movies (detectGroups (showDB\<lparr>subtitles := []\<rparr>))) =
     [(1, True), (2, True), (3, False)]"
proof -
  note facts = subtitles_outside_detection [of showDB "[]"]
  have "subtitles (detectGroups showDB) = subtitles showDB"
    using facts by (rule conjunct1)
  moreover have "movies (detectGroups (showDB\<lparr>subtitles := []\<rparr>)) = movies (detectGroups showDB)"
    using facts by (rule conjunct2)
  ultimately show ?thesis
    using showDB_detect by (simp add: showDB_def)
qed

section \<open>The catalog a run writes\<close>




















section \<open>From the command line to the server\<close>

text \<open>What \<^verbatim>\<open>main\<close> has done when it reaches the server.\<close>

lemma main_setup_serving:
  assumes "main_setup env args files = Inr (cfg, files')"
  shows "\<exists>dbConn scanned subs db1 db2.
           OpenDB env files (getDBPath env) = Inr dbConn \<and>
           ScanDir env (parentMoviePath args) = (scanned, subs, None) \<and>
           saveMovies (Parse env) dbConn scanned = Inr db1 \<and>
           saveSubs (Parse env) db1 subs = Inr db2 \<and>
           DB cfg = detectGroups db2 \<and> ScreenResolutions cfg = screenRes args \<and>
           AppDir cfg = getAppDir env \<and> files' = files"
  using assms
  by (auto simp: main_setup_def Let_def split: if_splits sum.splits prod.splits option.splits)

lemma main_setup_abort_cases:
  assumes "main_setup env args files = Inl (a, files')"
  shows "a = Panic ''sorry, you haven't install ffmpeg, INSTALL FFMPEG first!'' \<and> files' = files
       \<or> a = NilDereference \<and> files' = files
       \<or> files' = cleanup env files"
proof (cases "length (parentMoviePath args) = 0 \<or> \<not> checkFfmpegInstalled env
               \<or> length (TrimSpace (tmdbAPIKey args)) = 0")
  case True
  with assms show ?thesis
    by (auto simp: main_setup_def Let_def split: if_splits)
next
  case False
  with assms show ?thesis
    by (auto simp: main_setup_def Let_def split: sum.splits prod.splits option.splits
          dest: saveMovies_abort saveSubs_abort)
qed

lemma main_setup_panic_cleans:
  assumes "main_setup env args files = Inl (Panic msg, files')"
    and "msg \<noteq> ''sorry, you haven't install ffmpeg, INSTALL FFMPEG first!''"
  shows "files' (getAppDir env) = None"
  using main_setup_abort_cases [OF assms(1)] assms(2)
  by (auto simp: cleanup_removes)

lemma main_setup_reaches:
  assumes "parentMoviePath args \<noteq> []" and "ffmpegInstalled env"
    and "TrimSpace (tmdbAPIKey args) \<noteq> []"
    and "OpenDB env files (getDBPath env) = Inr dbConn"
    and "ScanDir env (parentMoviePath args) = (scanned, subs, None)"
    and "\<forall>name. fst (Parse env name) \<noteq> None"
  shows "\<exists>cfg. main_setup env args files = Inr (cfg, files)"
proof -
  obtain db1 where s1: "saveMovies (Parse env) dbConn scanned = Inr db1"
    using saveMovies_total [OF assms(6)] by blast
  obtain db2 where s2: "saveSubs (Parse env) db1 subs = Inr db2"
    using saveSubs_total [OF assms(6)] by blast
  show ?thesis
    using assms(1-5) by (simp add: main_setup_def checkFfmpegInstalled_def s1 s2)
qed


lemma run_serving:
  assumes "run env args files = Inr (cfg, files')"
  shows "\<exists>files1 scanned subs db1 db2.
           init env files = Inr files1 \<and> files1 (getDBPath env) = Some (File emptyDB) \<and>
           ScanDir env (parentMoviePath args) = (scanned, subs, None) \<and>
           saveMovies (Parse env) emptyDB scanned = Inr db1 \<and>
           saveSubs (Parse env) db1 subs = Inr db2 \<and>
           DB cfg = detectGroups db2"
proof -
  from assms obtain files1 where i: "init env files = Inr files1"
    and m: "main_setup env args files1 = Inr (cfg, files')"
    by (auto simp: run_def split: sum.splits)
  have f: "files1 (getDBPath env) = Some (File emptyDB)"
    using i by (rule init_db_file)
  from main_setup_serving [OF m] obtain dbConn scanned subs db1 db2 where
    o: "OpenDB env files1 (getDBPath env) = Inr dbConn"
    and sc: "ScanDir env (parentMoviePath args) = (scanned, subs, None)"
    and s1: "saveMovies (Parse env) dbConn scanned = Inr db1"
    and s2: "saveSubs (Parse env) db1 subs = Inr db2"
    and d: "DB cfg = detectGroups db2"
    by blast
  have "dbConn = emptyDB"
    using o f by (auto simp: OpenDB_def split: option.splits)
  with i f sc s1 s2 d show ?thesis
    by blast
qed


lemma homeEnv_reaches:
  assumes "files (getDBPath homeEnv) = Some (File db)"
  shows "\<exists>cfg. main_setup homeEnv (homeArgs\<lparr>resolutionTokens := tokens\<rparr>) files = Inr (cfg, files)"
proof (rule main_setup_reaches)
  show "parentMoviePath (homeArgs\<lparr>resolutionTokens := tokens\<rparr>) \<noteq> []"
    by (simp add: homeArgs_def)
  show "ffmpegInstalled homeEnv"
    by (simp add: homeEnv_sel)
  show "TrimSpace (tmdbAPIKey (homeArgs\<lparr>resolutionTokens := tokens\<rparr>)) \<noteq> []"
    by (simp add: homeArgs_def TrimSpace_def isSpace_def)
  show "OpenDB homeEnv files (getDBPath homeEnv) = Inr db"
    using assms by (simp add: OpenDB_def homeEnv_sel)
  show "ScanDir homeEnv (parentMoviePath (homeArgs\<lparr>resolutionTokens := tokens\<rparr>))
          = ([filmMovie], [filmSub], None)"
    by (simp add: homeEnv_sel)
  show "\<forall>name. fst (Parse homeEnv name) \<noteq> None"
    by (simp add: homeEnv_sel titleParser_def)
qed



text \<open>
  C5. Every abort of \<^verbatim>\<open>main\<close> is meant to remove the working directory first. When
  \<^verbatim>\<open>ffmpeg\<close> is not installed, \<^verbatim>\<open>main\<close> panics on line 118 with the file system as it
  was: the working directory and the storage file are still there. (The other panics of
  \<^verbatim>\<open>main\<close> do remove it, see \<open>main_setup_panic_cleans\<close>.)
\<close>

theorem missing_ffmpeg_keeps_working_directory:
  "main_setup (homeEnv\<lparr>ffmpegInstalled := False\<rparr>) homeArgs homeFiles =
     Inl (Panic ''sorry, you haven't install ffmpeg, INSTALL FFMPEG first!'', homeFiles) \<and>
   getAppDir (homeEnv\<lparr>ffmpegInstalled := False\<rparr>) = ''/home/u/.cache/voodioapp'' \<and>
   homeFiles ''/home/u/.cache/voodioapp'' = Some Directory \<and>
   homeFiles ''/home/u/.cache/voodioapp/voodio.db'' = Some (File staleDB)"
proof -
  have "getAppDir (homeEnv\<lparr>ffmpegInstalled := False\<rparr>) = getAppDir homeEnv"
    by (simp add: getAppDir_def cacheDir_def)
  then show ?thesis
    by (simp add: main_setup_def checkFfmpegInstalled_def homeArgs_def homeFiles_def
          homeEnv_appdir)
qed

text \<open>
  C8. Whenever \<^verbatim>\<open>main\<close> reaches the construction of the server, the resolutions of the
  configuration are the four defaults if the command line named none, and exactly the
  tokens of the command line, in their order, otherwise.
\<close>

theorem default_resolutions:
  assumes "main_setup env args files = Inr (cfg, files')"
  shows "ScreenResolutions cfg =
           (if resolutionTokens args = [] then [''360p'', ''480p'', ''720p'', ''1080p'']
            else resolutionTokens args)"
  using main_setup_serving [OF assms] by (auto simp: screenRes_eq)

text \<open>Both cases of C8 on the example run: no token, and two tokens.\<close>

theorem default_resolutions_witness:
  "(\<exists>cfg files'. main_setup homeEnv homeArgs homeFiles = Inr (cfg, files') \<and>
      ScreenResolutions cfg = [''360p'', ''480p'', ''720p'', ''1080p'']) \<and>
   (\<exists>cfg files'.
      main_setup homeEnv (homeArgs\<lparr>resolutionTokens := [''720p'', ''2160p'']\<rparr>) homeFiles
        = Inr (cfg, files') \<and>
      ScreenResolutions cfg = [''720p'', ''2160p''])"
proof
  obtain cfg where c: "main_setup homeEnv (homeArgs\<lparr>resolutionTokens := []\<rparr>) homeFiles = Inr (cfg, homeFiles)"
    using homeEnv_reaches [of homeFiles staleDB] homeFiles_db by blast
  have a: "homeArgs\<lparr>resolutionTokens := []\<rparr> = homeArgs"
    by (simp add: homeArgs_def)
  from default_resolutions [OF c] c
  show "\<exists>cfg files'. main_setup homeEnv homeArgs homeFiles = Inr (cfg, files') \<and>
      ScreenResolutions cfg = [''360p'', ''480p'', ''720p'', ''1080p'']"
    unfolding a by (auto simp: homeArgs_def)
next
  obtain cfg where c: "main_setup homeEnv (homeArgs\<lparr>resolutionTokens := [''720p'', ''2160p'']\<rparr>) homeFiles
      = Inr (cfg, homeFiles)"
    using homeEnv_reaches [of homeFiles staleDB] homeFiles_db by blast
  from default_resolutions [OF c] c
  show "\<exists>cfg files'.
      main_setup homeEnv (homeArgs\<lparr>resolutionTokens := [''720p'', ''2160p'']\<rparr>) homeFiles
        = Inr (cfg, files') \<and>
      ScreenResolutions cfg = [''720p'', ''2160p'']"
    by auto
qed

text \<open>
  C9. Whenever a run reaches the server, \<^verbatim>\<open>init\<close> has left an empty store at the path of
  the storage file, whatever was there before, and the catalog handed to the server holds
  exactly one movie record per scanned movie and one subtitle record per scanned subtitle
  of this run, in the order of the scan.
\<close>

theorem store_rebuilt_each_run:
  assumes "run env args files = Inr (cfg, files')"
    and "ScanDir env (parentMoviePath args) = (scanned, subs, err)"
  shows "(\<exists>files1. init env files = Inr files1 \<and> files1 (getDBPath env) = Some (File emptyDB)) \<and>
         map (\<lambda>r. (DirPath r, BaseName r)) (movies (DB cfg)) = map (\<lambda>e. (Dir e, MovieFile e)) scanned \<and>
         map (\<lambda>r. (DirPath r, BaseName r)) (subtitles (DB cfg)) = map (\<lambda>e. (Dir e, SubFile e)) subs"
proof -
  from run_serving [OF assms(1)] assms(2) obtain files1 db1 db2 where
    i: "init env files = Inr files1"
    and f: "files1 (getDBPath env) = Some (File emptyDB)"
    and s1: "saveMovies (Parse env) emptyDB scanned = Inr db1"
    and s2: "saveSubs (Parse env) db1 subs = Inr db2"
    and d: "DB cfg = detectGroups db2"
    by auto
  have k: "map (\<lambda>r. (DirPath r, BaseName r)) (flagBy p rows) = map (\<lambda>r. (DirPath r, BaseName r)) rows"
    for p rows
    by (induction rows) (auto simp: flagBy_def)
  from saveMovies_rows [OF s1] saveSubs_rows [OF s2]
  have "map (\<lambda>r. (DirPath r, BaseName r)) (movies db2) = map (\<lambda>e. (Dir e, MovieFile e)) scanned"
    and "map (\<lambda>r. (DirPath r, BaseName r)) (subtitles db2) = map (\<lambda>e. (Dir e, SubFile e)) subs"
    by (simp_all add: emptyDB_def)
  with i f d show ?thesis
    by (simp add: detectGroups_flagBy k)
qed

text \<open>C9 on a file system that holds the store of an earlier run with one movie.\<close>

theorem store_rebuilt_each_run_witness:
  "homeFiles (getDBPath homeEnv) = Some (File staleDB) \<and>
   (\<exists>cfg files'. run homeEnv homeArgs homeFiles = Inr (cfg, files') \<and>
      ScanDir homeEnv (parentMoviePath homeArgs) = ([filmMovie], [filmSub], None) \<and>
      map (\<lambda>r. (DirPath r, BaseName r)) (movies (DB cfg)) =
        [(''/movies/Film.2020.1080p.WEB'', ''Film.2020.1080p.WEB.mkv'')] \<and>
      map (\<lambda>r. (DirPath r, BaseName r)) (subtitles (DB cfg)) =
        [(''/movies/Film.2020.1080p.WEB'', ''Film.2020.1080p.WEB.srt'')])"
proof -
  let ?files1 = "homeFiles(''/home/u/.cache/voodioapp/voodio.db'' \<mapsto> File emptyDB)"
  have "?files1 (getDBPath homeEnv) = Some (File emptyDB)"
    by (simp add: homeEnv_dbpath)
  from homeEnv_reaches [of ?files1 emptyDB "[]"] this
  obtain cfg where c: "main_setup homeEnv homeArgs ?files1 = Inr (cfg, ?files1)"
    by (auto simp: homeArgs_def)
  have r: "run homeEnv homeArgs homeFiles = Inr (cfg, ?files1)"
    by (simp add: run_def homeEnv_init c)
  have s: "ScanDir homeEnv (parentMoviePath homeArgs) = ([filmMovie], [filmSub], None)"
    by (simp add: homeEnv_sel)
  from store_rebuilt_each_run [OF r s] r s homeFiles_db show ?thesis
    by (simp add: filmMovie_def filmSub_def)
qed




section \<open>The two tasks of the serving phase\<close>

lemma pcInv_start: "pcInv (serveStart fs0)"
  by (simp add: pcInv_def serveStart_def)

lemma pcInv_step: "pcInv s \<Longrightarrow> pcInv (step env a s)"
  by (cases a; cases "mainAt s"; cases "watcherAt s")
    (auto simp: pcInv_def stepMain_def stepWatcher_def interrupt_def serveFails_def emit_def
       split: option.splits)

lemma precededBy_append:
  "precededBy P Q (xs @ ys) \<longleftrightarrow> precededBy P Q xs \<and> ((\<exists>x \<in> set xs. P x) \<or> precededBy P Q ys)"
  by (induction xs) auto

lemma traceInv_start: "traceInv (serveStart fs0)"
  by (simp add: traceInv_def serveStart_def)

lemma traceInv_step: "pcInv s \<Longrightarrow> traceInv s \<Longrightarrow> traceInv (step env a s)"
  by (cases a; cases "mainAt s"; cases "watcherAt s")
    (auto simp: pcInv_def traceInv_def stepMain_def stepWatcher_def interrupt_def serveFails_def
       emit_def split: option.splits)

lemma orderInv_start: "orderInv (serveStart fs0)"
  by (simp add: orderInv_def serveStart_def)

lemma orderInv_step: "pcInv s \<Longrightarrow> traceInv s \<Longrightarrow> orderInv s \<Longrightarrow> orderInv (step env a s)"
  by (cases a; cases "mainAt s"; cases "watcherAt s")
    (auto simp: pcInv_def traceInv_def orderInv_def stepMain_def stepWatcher_def interrupt_def
       serveFails_def emit_def precededBy_append split: option.splits)

lemma diskInv_start: "diskInv env (serveStart fs0)"
  by (simp add: diskInv_def serveStart_def)

lemma diskInv_step: "diskInv env s \<Longrightarrow> diskInv env (step env a s)"
  by (cases a; cases "mainAt s"; cases "watcherAt s")
    (auto simp: diskInv_def stepMain_def stepWatcher_def interrupt_def
       serveFails_def emit_def cleanup_removes split: option.splits)

lemma serveInv_exec: "serveInv env s \<Longrightarrow> serveInv env (exec env schedule s)"
  unfolding exec_def
proof (induction schedule arbitrary: s)
  case Nil
  then show ?case by simp
next
  case (Cons a schedule)
  from Cons.prems have "serveInv env (step env a s)"
    by (simp add: serveInv_def pcInv_step traceInv_step orderInv_step diskInv_step)
  then show ?case
    using Cons.IH by simp
qed

lemma serveInv_reachable: "serveInv env (exec env schedule (serveStart fs0))"
  by (rule serveInv_exec)
    (simp add: serveInv_def pcInv_start traceInv_start orderInv_start diskInv_start)

lemma exec_Cons: "exec env (a # xs) s = exec env xs (step env a s)"
  by (simp add: exec_def)

lemma exec_Nil: "exec env [] s = s"
  by (simp add: exec_def)

lemma round_progress:
  assumes "pcInv s" and "signalled s"
  shows "signalled (stepMain env (stepWatcher env s)) \<and>
         roundsLeft (stepMain env (stepWatcher env s)) \<le> roundsLeft s - 1"
  using assms
  by (cases "mainAt s"; cases "watcherAt s")
    (auto simp: pcInv_def signalled_def roundsLeft_def stepMain_def stepWatcher_def emit_def
       split: option.splits)

lemma roundsLeft_0: "pcInv s \<Longrightarrow> roundsLeft s = 0 \<Longrightarrow> mainAt s = M_Returned"
  by (cases "mainAt s") (auto simp: roundsLeft_def)

lemma roundsLeft_le_5: "roundsLeft s \<le> 5"
  by (cases "mainAt s") (auto simp: roundsLeft_def)

lemma bothRun_returns:
  "pcInv s \<Longrightarrow> signalled s \<Longrightarrow> roundsLeft s \<le> n \<Longrightarrow> mainAt (exec env (bothRun n) s) = M_Returned"
proof (induction n arbitrary: s)
  case 0
  then show ?case
    by (simp add: exec_Nil roundsLeft_0)
next
  case (Suc n)
  let ?s = "stepMain env (stepWatcher env s)"
  have "pcInv ?s"
    using pcInv_step [of "step env StepWatcher s" env StepMain] pcInv_step [of s env StepWatcher]
      Suc.prems(1) by simp
  moreover have "signalled ?s" and "roundsLeft ?s \<le> n"
    using round_progress [OF Suc.prems(1,2), of env] Suc.prems(3) by auto
  ultimately have "mainAt (exec env (bothRun n) ?s) = M_Returned"
    by (rule Suc.IH)
  then show ?case
    by (simp add: exec_Cons)
qed

text \<open>
  C6, amended. In every run of the two tasks, under every schedule: the removal of the
  working directory comes after \<^verbatim>\<open>Shutdown\<close> has returned, which comes after the call of
  \<^verbatim>\<open>Shutdown\<close>, which comes after the watcher has taken the interrupt from the channel,
  which comes after the watcher was started; and \<^verbatim>\<open>main\<close> is past its receive on
  \<^verbatim>\<open>serverDone\<close> only when the watcher has passed its send. (That the interrupt is taken
  only after serving started does not hold, as the run after this theorem shows.)
\<close>

theorem shutdown_order:
  assumes "s = exec env schedule (serveStart fs0)"
  shows "precededBy isShutdownReturned (\<lambda>e. e = WorkDirRemoved) (trace s) \<and>
         precededBy (\<lambda>e. e = InterruptObserved) isShutdownReturned (trace s) \<and>
         precededBy (\<lambda>e. e = InterruptObserved) isShutdownCalled (trace s) \<and>
         precededBy isShutdownCalled isShutdownReturned (trace s) \<and>
         precededBy (\<lambda>e. e = WatcherStarted) (\<lambda>e. e = InterruptObserved) (trace s) \<and>
         precededBy (\<lambda>e. e = DoneSignalled) (\<lambda>e. e = WorkDirRemoved) (trace s) \<and>
         precededBy isShutdownReturned (\<lambda>e. e = DoneSignalled) (trace s) \<and>
         (mainAt s = M_Cleanup \<or> mainAt s = M_Returned \<longrightarrow>
            watcherAt s = W_Finished \<and> DoneSignalled \<in> set (trace s))"
proof -
  have inv: "serveInv env s"
    unfolding assms by (rule serveInv_reachable)
  then have o: "orderInv s" and p: "pcInv s" and t: "traceInv s"
    by (simp_all add: serveInv_def)
  have "watcherAt s = W_Finished \<and> DoneSignalled \<in> set (trace s)"
    if "mainAt s = M_Cleanup \<or> mainAt s = M_Returned"
  proof -
    from that p have "watcherAt s = W_Finished"
      by (auto simp: pcInv_def)
    with t show ?thesis
      by (simp add: traceInv_def)
  qed
  with o show ?thesis
    by (simp add: orderInv_def)
qed

lemma homeRunEnv_sel:
  "ListenAndServe_error homeRunEnv = None" "Shutdown_error homeRunEnv = None"
  "UserCacheDir homeRunEnv = (''/home/u/.cache'', None)"
  by (simp_all add: homeRunEnv_def)

lemma homeRunEnv_appdir: "getAppDir (homeRunEnv\<lparr>Shutdown_error := e\<rparr>) = ''/home/u/.cache/voodioapp''"
  by (simp add: getAppDir_def cacheDir_def homeRunEnv_sel Join_def Clean_def appDirName_def
        Separator_def)

text \<open>
  C6 as stated fails: the watcher is started on line 187, before \<^verbatim>\<open>ListenAndServe\<close> is
  called on line 206. When the interrupt arrives in between and the watcher runs first,
  the interrupt is observed and \<^verbatim>\<open>Shutdown\<close> is called and returns before \<^verbatim>\<open>main\<close>
  reaches line 206; \<^verbatim>\<open>ListenAndServe\<close> then returns \<^verbatim>\<open>ErrServerClosed\<close> at once and the
  run ends with the working directory removed, without serving ever having started.
\<close>

theorem interrupt_observed_before_serving:
  "trace (exec homeRunEnv
      [StepMain, StepMain, Interrupt, StepWatcher, StepWatcher, StepWatcher,
       StepMain, StepMain, StepMain, StepMain] (serveStart homeFiles)) =
     [SignalNotified, WatcherStarted, InterruptDelivered, InterruptObserved, KeepAlivesDisabled,
      ShutdownCalled 30000000000, ShutdownReturned None, ListenCalled, ListenReturned,
      DoneSignalled, WorkDirRemoved] \<and>
   \<not> precededBy (\<lambda>e. e = ServingStarted) (\<lambda>e. e = InterruptObserved)
       (trace (exec homeRunEnv
          [StepMain, StepMain, Interrupt, StepWatcher, StepWatcher, StepWatcher,
           StepMain, StepMain, StepMain, StepMain] (serveStart homeFiles)))"
  by code_simp

text \<open>
  C6 on the run in which the server is serving when the interrupt arrives.
\<close>

theorem shutdown_order_witness:
  "trace (exec homeRunEnv
      [StepMain, StepMain, StepMain, StepMain, Interrupt, StepWatcher, StepWatcher, StepWatcher,
       StepMain, StepMain, StepMain] (serveStart homeFiles)) =
     [SignalNotified, WatcherStarted, ListenCalled, ServingStarted, InterruptDelivered,
      InterruptObserved, KeepAlivesDisabled, ShutdownCalled 30000000000, ShutdownReturned None,
      ListenReturned, DoneSignalled, WorkDirRemoved] \<and>
   precededBy isShutdownReturned (\<lambda>e. e = WorkDirRemoved)
     (trace (exec homeRunEnv
        [StepMain, StepMain, StepMain, StepMain, Interrupt, StepWatcher, StepWatcher, StepWatcher,
         StepMain, StepMain, StepMain] (serveStart homeFiles))) \<and>
   mainAt (exec homeRunEnv
        [StepMain, StepMain, StepMain, StepMain, Interrupt, StepWatcher, StepWatcher, StepWatcher,
         StepMain, StepMain, StepMain] (serveStart homeFiles)) = M_Returned \<and>
   watcherAt (exec homeRunEnv
        [StepMain, StepMain, StepMain, StepMain, Interrupt, StepWatcher, StepWatcher, StepWatcher,
         StepMain, StepMain, StepMain] (serveStart homeFiles)) = W_Finished"
proof -
  let ?s = "exec homeRunEnv
        [StepMain, StepMain, StepMain, StepMain, Interrupt, StepWatcher, StepWatcher, StepWatcher,
         StepMain, StepMain, StepMain] (serveStart homeFiles)"
  have t: "trace ?s =
     [SignalNotified, WatcherStarted, ListenCalled, ServingStarted, InterruptDelivered,
      InterruptObserved, KeepAlivesDisabled, ShutdownCalled 30000000000, ShutdownReturned None,
      ListenReturned, DoneSignalled, WorkDirRemoved]"
    by code_simp
  have m: "mainAt ?s = M_Returned"
    by code_simp
  note order = shutdown_order [OF refl, of homeRunEnv
      "[StepMain, StepMain, StepMain, StepMain, Interrupt, StepWatcher, StepWatcher, StepWatcher,
         StepMain, StepMain, StepMain]" homeFiles]
  have r: "precededBy isShutdownReturned (\<lambda>e. e = WorkDirRemoved) (trace ?s)"
    using order by (rule conjunct1)
  have w: "watcherAt ?s = W_Finished"
    using order m by blast
  show ?thesis
    by (intro conjI t r m w)
qed

text \<open>
  C7. Once the interrupt has been delivered to the channel, in whatever state of the two
  tasks, five or more rounds of both tasks bring \<^verbatim>\<open>main\<close> to its end: \<^verbatim>\<open>Shutdown\<close> has
  been called, and only ever with the timeout of 30 seconds (30000000000 nanoseconds); it
  has returned what the surroundings made it return; if that was an error (the expired
  deadline or another one) the error line is in the log; and all the same the watcher has
  signalled on \<^verbatim>\<open>serverDone\<close>, \<^verbatim>\<open>main\<close> has removed the working directory and returned.
\<close>

theorem graceful_stop_failure_not_fatal:
  assumes "s = exec env schedule (serveStart fs0)"
    and "InterruptDelivered \<in> set (trace s)"
    and "5 \<le> n"
    and "s' = exec env (bothRun n) s"
  shows "(\<forall>e \<in> set (trace s'). isShutdownCalled e \<longrightarrow> e = ShutdownCalled 30000000000) \<and>
         ShutdownCalled 30000000000 \<in> set (trace s') \<and>
         ShutdownReturned (Shutdown_error env) \<in> set (trace s') \<and>
         (Shutdown_error env \<noteq> None \<longrightarrow>
            LoggedError ''Couldn't gracefully shutdown'' \<in> set (trace s')) \<and>
         DoneSignalled \<in> set (trace s') \<and> watcherAt s' = W_Finished \<and>
         mainAt s' = M_Returned \<and> WorkDirRemoved \<in> set (trace s') \<and>
         disk s' (getAppDir env) = None"
proof -
  have inv: "serveInv env s"
    unfolding assms(1) by (rule serveInv_reachable)
  then have ps: "pcInv s" and ts: "traceInv s"
    by (simp_all add: serveInv_def)
  from ts assms(2) have "signalled s"
    unfolding traceInv_def signalled_def by blast
  moreover have "roundsLeft s \<le> n"
    using roundsLeft_le_5 [of s] assms(3) by simp
  ultimately have m: "mainAt s' = M_Returned"
    unfolding assms(4) using ps by (intro bothRun_returns)
  have inv': "serveInv env s'"
    unfolding assms(4) using inv by (rule serveInv_exec)
  then have p: "pcInv s'" and t: "traceInv s'" and d: "diskInv env s'"
    by (simp_all add: serveInv_def)
  from p m have w: "watcherAt s' = W_Finished"
    by (simp add: pcInv_def)
  have r: "3 \<le> watcherRank (watcherAt s')" "4 \<le> watcherRank (watcherAt s')"
    "5 \<le> watcherRank (watcherAt s')"
    by (simp_all add: w)
  from t have only: "\<forall>e \<in> set (trace s'). isShutdownCalled e \<longrightarrow> e = ShutdownCalled (Second * 30)"
    unfolding traceInv_def by blast
  have thirty: "Second * 30 = 30000000000"
    by (simp add: Second_def)
  from t r have c: "\<exists>e \<in> set (trace s'). isShutdownCalled e"
    unfolding traceInv_def by blast
  with only have called: "ShutdownCalled (Second * 30) \<in> set (trace s')"
    by metis
  from t r have signalledDone: "DoneSignalled \<in> set (trace s')"
    unfolding traceInv_def by blast
  from t m have removed: "WorkDirRemoved \<in> set (trace s')"
    unfolding traceInv_def by blast
  from d m have gone: "disk s' (getAppDir env) = None"
    unfolding diskInv_def by blast
  from d r have returned: "ShutdownReturned (Shutdown_error env) \<in> set (trace s')"
    and logged: "Shutdown_error env \<noteq> None \<longrightarrow>
           LoggedError ''Couldn't gracefully shutdown'' \<in> set (trace s')"
    unfolding diskInv_def by blast+
  show ?thesis
    using only called returned logged signalledDone w m removed gone
    unfolding thirty by (intro conjI)
qed

text \<open>
  C7 on the run in which the server is serving, the interrupt arrives and \<^verbatim>\<open>Shutdown\<close>
  returns the error of the expired deadline.
\<close>

theorem graceful_stop_failure_not_fatal_witness:
  "InterruptDelivered \<in> set (trace (exec (homeRunEnv\<lparr>Shutdown_error := Some ''context deadline exceeded''\<rparr>)
      [StepMain, StepMain, StepMain, StepMain, Interrupt] (serveStart homeFiles))) \<and>
   (5::nat) \<le> 5 \<and>
   LoggedError ''Couldn't gracefully shutdown'' \<in>
     set (trace (exec (homeRunEnv\<lparr>Shutdown_error := Some ''context deadline exceeded''\<rparr>) (bothRun 5)
       (exec (homeRunEnv\<lparr>Shutdown_error := Some ''context deadline exceeded''\<rparr>)
         [StepMain, StepMain, StepMain, StepMain, Interrupt] (serveStart homeFiles)))) \<and>
   mainAt (exec (homeRunEnv\<lparr>Shutdown_error := Some ''context deadline exceeded''\<rparr>) (bothRun 5)
       (exec (homeRunEnv\<lparr>Shutdown_error := Some ''context deadline exceeded''\<rparr>)
         [StepMain, StepMain, StepMain, StepMain, Interrupt] (serveStart homeFiles))) = M_Returned \<and>
   homeFiles ''/home/u/.cache/voodioapp'' = Some Directory \<and>
   disk (exec (homeRunEnv\<lparr>Shutdown_error := Some ''context deadline exceeded''\<rparr>) (bothRun 5)
       (exec (homeRunEnv\<lparr>Shutdown_error := Some ''context deadline exceeded''\<rparr>)
         [StepMain, StepMain, StepMain, StepMain, Interrupt] (serveStart homeFiles)))
     ''/home/u/.cache/voodioapp'' = None"
proof -
  let ?env = "homeRunEnv\<lparr>Shutdown_error := Some ''context deadline exceeded''\<rparr>"
  let ?s = "exec ?env [StepMain, StepMain, StepMain, StepMain, Interrupt] (serveStart homeFiles)"
  let ?s' = "exec ?env (bothRun 5) ?s"
  have i: "InterruptDelivered \<in> set (trace ?s)"
    by code_simp
  have e: "Shutdown_error ?env \<noteq> None"
    by simp
  note facts = graceful_stop_failure_not_fatal [OF refl i order_refl refl]
  have l: "LoggedError ''Couldn't gracefully shutdown'' \<in> set (trace ?s')"
    using facts e by blast
  have m: "mainAt ?s' = M_Returned"
    using facts by blast
  have "disk ?s' (getAppDir ?env) = None"
    using facts by blast
  then have d: "disk ?s' ''/home/u/.cache/voodioapp'' = None"
    by (simp only: homeRunEnv_appdir)
  have h: "homeFiles ''/home/u/.cache/voodioapp'' = Some Directory"
    by (simp add: homeFiles_def)
  show ?thesis
    by (intro conjI i order_refl l m h d)
qed

end
